theory Spec2Isabelle
  imports Main "HOL-Library.AList" "HOL-Library.Char_ord" "HOL-Library.List_Lexorder"
begin

section \<open>The Teahaz client (teahaz/client.py)\<close>

text \<open>
  A shallow embedding of \<^verbatim>\<open>src/teahaz/client.py\<close>. Objects are records, Python values are
  a datatype, a raised exception is the \<open>Inl\<close> of a sum, and every method of \<open>Chatroom\<close>
  takes the chatroom and returns it updated next to its result, so that a mutation made
  before a \<^verbatim>\<open>raise\<close> is still visible in the state that comes back.

  What the module does to the outside world (a call on the \<^verbatim>\<open>requests\<close> session, a
  handler invoked, a thread started) is appended to the chatroom's \<open>trace\<close>, a ghost field
  the Python object does not have.
\<close>

subsection \<open>Python values\<close>

text \<open>
  The values the module handles without looking at their type: what \<^verbatim>\<open>response.json()\<close>
  gives back, what is put into request arguments, and \<open>Channel\<close> objects (which
  \<^verbatim>\<open>create_channel\<close> puts into a list it hands to \<^verbatim>\<open>_update_channels\<close>). A dict is a list of
  items; where a key stands twice the first item counts, and the order of the items
  matters to nothing but the iteration over the dict. JSON numbers with a fraction are
  not part of the model.
\<close>

datatype pyval =
    PNone
  | PBool bool
  | PInt int
  | PStr string
  | PBytes string
  | PList "pyval list"
  | PDict "(string \<times> pyval) list"
  | PChannel channel
and channel =
    Channel (uid: pyval) (name: pyval) (public: pyval) (permissions: pyval)

type_synonym kwargs = "(string \<times> pyval) list"

datatype py_exn =
    AttributeError string
  | ValueError string
  | KeyError string
  | TypeError string
  | IndexError string
  | AssertionError string
  | RuntimeError string kwargs int string
  | JSONDecodeError
  | TransportError string
  | Unmodelled

text \<open>
  \<open>RuntimeError\<close> is the one raised at the end of \<^verbatim>\<open>_request\<close>; it keeps the four values the
  message interpolates (upper-cased method name, request arguments, status code, body
  text). \<open>TransportError\<close> stands for whatever the session's method raises.
  \<open>Unmodelled\<close> is not a Python exception: it marks an input on which the model stops
  following Python (see \<open>py_str\<close>, \<open>format_field\<close> and \<open>EndpointContainer_set\<close>).
\<close>

text \<open>Truth value of an object, as \<^verbatim>\<open>assert self.user_id\<close> tests it.\<close>

fun truthy :: "pyval \<Rightarrow> bool" where
  "truthy PNone = False"
| "truthy (PBool b) = b"
| "truthy (PInt i) = (i \<noteq> 0)"
| "truthy (PStr s) = (s \<noteq> [])"
| "truthy (PBytes s) = (s \<noteq> [])"
| "truthy (PList xs) = (xs \<noteq> [])"
| "truthy (PDict kvs) = (kvs \<noteq> [])"
| "truthy (PChannel ch) = True"

text \<open>\<^verbatim>\<open>data[key]\<close> with a string key: only a dict accepts it.\<close>

fun getitem :: "pyval \<Rightarrow> string \<Rightarrow> py_exn + pyval" where
  "getitem (PDict kvs) k = (case map_of kvs k of None \<Rightarrow> Inl (KeyError k) | Some v \<Rightarrow> Inr v)"
| "getitem v k = Inl (TypeError ''object is not subscriptable by a string'')"

text \<open>\<^verbatim>\<open>for data in channels\<close>: the elements the loop visits, or the \<open>TypeError\<close> of an
  object that is not iterable.\<close>

fun py_iter :: "pyval \<Rightarrow> py_exn + pyval list" where
  "py_iter (PList xs) = Inr xs"
| "py_iter (PDict kvs) = Inr (map (\<lambda>kv. PStr (fst kv)) (AList.clearjunk kvs))"
| "py_iter (PStr s) = Inr (map (\<lambda>ch. PStr [ch]) s)"
| "py_iter (PBytes s) = Inr (map (\<lambda>ch. PInt (of_char ch)) s)"
| "py_iter v = Inl (TypeError ''object is not iterable'')"

text \<open>
  Python's \<^verbatim>\<open>==\<close>: \<^verbatim>\<open>True == 1\<close> and \<^verbatim>\<open>False == 0\<close>, two dicts are equal when they have the
  same keys with equal values, in whatever order, and everything else of this universe
  is compared by structure. \<open>norm\<close> replaces each bool by its number and each dict by
  its items sorted by key (one item for each key), so two values are equal in Python
  exactly when their normal forms are the same (see \<open>Channel_eq\<close> and \<open>norm_dict_iff\<close>).
\<close>

primrec norm :: "pyval \<Rightarrow> pyval" and norm_channel :: "channel \<Rightarrow> channel" where
  "norm PNone = PNone"
| "norm (PBool b) = PInt (if b then 1 else 0)"
| "norm (PInt i) = PInt i"
| "norm (PStr s) = PStr s"
| "norm (PBytes s) = PBytes s"
| "norm (PList xs) = PList (map norm xs)"
| "norm (PDict kvs) = PDict (sort_key fst (AList.clearjunk (map (map_prod id norm) kvs)))"
| "norm (PChannel ch) = PChannel (norm_channel ch)"
| "norm_channel (Channel u n p perms) = Channel (norm u) (norm n) (norm p) (norm perms)"

subsection \<open>Formatting\<close>

text \<open>Decimal digits of a natural number, most significant first.\<close>

function show_nat :: "nat \<Rightarrow> string" where
  "show_nat n = (if n < 10 then [char_of (48 + n)] else show_nat (n div 10) @ [char_of (48 + n mod 10)])"
  by pat_completeness auto
termination
  by (relation "measure id") auto

definition show_int :: "int \<Rightarrow> string" where
  "show_int i = (if i < 0 then CHR ''-'' # show_nat (nat (- i)) else show_nat (nat i))"

text \<open>
  \<^verbatim>\<open>format(value, "")\<close>, what a replacement field without a format spec inserts. The text of
  a list, a dict, a bytes object or a \<open>Channel\<close> is their \<^verbatim>\<open>repr\<close>, which the model does not
  spell out.
\<close>

fun py_str :: "pyval \<Rightarrow> py_exn + string" where
  "py_str PNone = Inr ''None''"
| "py_str (PBool b) = Inr (if b then ''True'' else ''False'')"
| "py_str (PInt i) = Inr (show_int i)"
| "py_str (PStr s) = Inr s"
| "py_str v = Inl Unmodelled"

text \<open>
  One replacement field \<^verbatim>\<open>{field}\<close> of \<^verbatim>\<open>str.format(**kw)\<close>, called without positional
  arguments. An empty field name is positional argument 0, which does not exist. A name
  made of digits is a position too; the model leaves it aside, as it does every field
  with a conversion, a format spec or an attribute or index lookup (see \<open>py_format_from\<close>).
\<close>

definition format_field :: "string \<Rightarrow> kwargs \<Rightarrow> py_exn + string" where
  "format_field field kw =
     (if field = [] then Inl (IndexError ''Replacement index 0 out of range for positional args tuple'')
      else if list_all (\<lambda>ch. ch \<in> set ''0123456789'') field then Inl Unmodelled
      else (case map_of kw field of None \<Rightarrow> Inl (KeyError field) | Some v \<Rightarrow> py_str v))"

text \<open>
  \<^verbatim>\<open>str.format\<close>, read left to right. The first argument is \<open>None\<close> in literal text and
  \<open>Some name\<close> inside a replacement field whose name has been read so far. \<^verbatim>\<open>{{\<close> and
  \<^verbatim>\<open>}}\<close> are the escaped braces.
\<close>

fun py_format_from :: "string option \<Rightarrow> string \<Rightarrow> kwargs \<Rightarrow> py_exn + string" where
  "py_format_from None [] kw = Inr []"
| "py_format_from None (c # cs) kw =
     (if c = CHR ''{'' then
        (case cs of
           [] \<Rightarrow> Inl (ValueError ''Single { encountered in format string'')
         | d # ds \<Rightarrow>
             if d = CHR ''{'' then map_sum id ((#) c) (py_format_from None ds kw)
             else py_format_from (Some []) cs kw)
      else if c = CHR ''}'' then
        (case cs of
           [] \<Rightarrow> Inl (ValueError ''Single } encountered in format string'')
         | d # ds \<Rightarrow>
             if d = CHR ''}'' then map_sum id ((#) c) (py_format_from None ds kw)
             else Inl (ValueError ''Single } encountered in format string''))
      else map_sum id ((#) c) (py_format_from None cs kw))"
| "py_format_from (Some field) [] kw = Inl (ValueError ''expected } before end of string'')"
| "py_format_from (Some field) (c # cs) kw =
     (if c = CHR ''}'' then
        (case format_field field kw of
           Inl e \<Rightarrow> Inl e
         | Inr s \<Rightarrow> map_sum id ((@) s) (py_format_from None cs kw))
      else if c \<in> set ''{[!:.'' then Inl Unmodelled
      else py_format_from (Some (field @ [c])) cs kw)"

definition py_format :: "string \<Rightarrow> kwargs \<Rightarrow> py_exn + string" where
  "py_format template kw = py_format_from None template kw"

text \<open>\<^verbatim>\<open>str.upper\<close> on the ASCII letters.\<close>

definition py_upper :: "string \<Rightarrow> string" where
  "py_upper s = map (\<lambda>ch. let n = (of_char ch :: nat) in
                     if 97 \<le> n \<and> n \<le> 122 then char_of (n - 32) else ch) s"

subsection \<open>Event\<close>

datatype event =
    ERROR
  | MSG_NEW
  | MSG_DEL
  | MSG_SYS
  | MSG_SENT
  | USER_JOIN
  | USER_LEAVE
  | SERVER_INFO
  | MSG_SYS_SILENT
  | NETWORK_EXCEPTION

subsection \<open>EndpointContainer\<close>

record endpoint_container =
  priv_url :: pyval
  priv_uid :: pyval

definition items :: "(string \<times> string) list" where
  "items =
    [(''base'', ''{url}/api/v0''),
     (''login'', ''{base}/login/{chatroom_id}''),
     (''chatroom'', ''{base}/chatroom''),
     (''files'', ''{base}/files/{chatroom_id}''),
     (''messages'', ''{base}/messages/{chatroom_id}''),
     (''channels'', ''{base}/channels/{chatroom_id}'')]"

definition EndpointContainer_init :: "string \<Rightarrow> pyval \<Rightarrow> endpoint_container" where
  "EndpointContainer_init u i = \<lparr>priv_url = PStr u, priv_uid = i\<rparr>"

text \<open>
  \<^verbatim>\<open>set\<close> prepends an underscore and accepts the name when \<^verbatim>\<open>dir(self)\<close> lists it. The two
  instance attributes are followed here. \<^verbatim>\<open>dir\<close> also lists the class attribute
  \<^verbatim>\<open>_items\<close> and the double-underscore names of every object; assigning those is left
  aside. No other name with a leading underscore exists, so the rest is the \<open>KeyError\<close>.
\<close>

definition EndpointContainer_set ::
  "endpoint_container \<Rightarrow> string \<Rightarrow> pyval \<Rightarrow> py_exn + endpoint_container" where
  "EndpointContainer_set e item v =
     (let item' = ''_'' @ item in
      if item' = ''_url'' then Inr (e\<lparr>priv_url := v\<rparr>)
      else if item' = ''_uid'' then Inr (e\<lparr>priv_uid := v\<rparr>)
      else if item' = ''_items'' \<or> (take 2 item' = ''__'' \<and> take 2 (rev item') = ''__'')
        then Inl Unmodelled
      else Inl (KeyError (''Invalid setter key '' @ item' @ ''.'')))"

definition EndpointContainer_base :: "endpoint_container \<Rightarrow> py_exn + string" where
  "EndpointContainer_base e =
     (case map_of items ''base'' of
        None \<Rightarrow> Inl (KeyError ''base'')
      | Some template \<Rightarrow> py_format template [(''url'', priv_url e)])"

definition EndpointContainer_getattr :: "endpoint_container \<Rightarrow> string \<Rightarrow> py_exn + string" where
  "EndpointContainer_getattr e item =
     (if item = ''base'' then EndpointContainer_base e
      else (case map_of items item of
              None \<Rightarrow> Inl (KeyError item)
            | Some template \<Rightarrow>
                (case EndpointContainer_base e of
                   Inl x \<Rightarrow> Inl x
                 | Inr base \<Rightarrow>
                     py_format template
                       [(''url'', priv_url e), (''base'', PStr base), (''chatroom_id'', priv_uid e)])))"

subsection \<open>Channel\<close>

definition Channel_from_dict :: "pyval \<Rightarrow> py_exn + channel" where
  "Channel_from_dict data =
     (case getitem data ''channelID'' of
        Inl e \<Rightarrow> Inl e
      | Inr u \<Rightarrow>
     (case getitem data ''channel_name'' of
        Inl e \<Rightarrow> Inl e
      | Inr n \<Rightarrow>
     (case getitem data ''public'' of
        Inl e \<Rightarrow> Inl e
      | Inr p \<Rightarrow>
     (case getitem data ''permissions'' of
        Inl e \<Rightarrow> Inl e
      | Inr perms \<Rightarrow> Inr (Channel u n p perms)))))"

text \<open>The \<^verbatim>\<open>__eq__\<close> a dataclass generates compares the tuples of all four fields.\<close>

definition Channel_eq :: "channel \<Rightarrow> channel \<Rightarrow> bool" where
  "Channel_eq a b = (norm_channel a = norm_channel b)"

text \<open>\<^verbatim>\<open>channel in self.channels\<close>.\<close>

definition channel_in :: "channel \<Rightarrow> channel list \<Rightarrow> bool" where
  "channel_in ch chs = list_ex (\<lambda>x. Channel_eq x ch) chs"

subsection \<open>The session and the trace\<close>

record response =
  status_code :: int
  json :: "py_exn + pyval"
  resp_text :: string

text \<open>
  \<^verbatim>\<open>getattr(self.session, method_name)\<close> has four outcomes: the attribute does not exist
  (\<^verbatim>\<open>getattr\<close> raises), it is \<^verbatim>\<open>None\<close>, it is something that cannot be called, or it is a
  method. A method is given the number of calls made on the session so far and the
  request arguments, and raises or returns a response; \<open>json\<close> is what
  \<^verbatim>\<open>response.json()\<close> gives, a parsed body or the decoder's exception.
\<close>

datatype attr =
    AttrMissing
  | AttrNone
  | AttrOther
  | AttrMethod "nat \<Rightarrow> kwargs \<Rightarrow> py_exn + response"

type_synonym session = "string \<Rightarrow> attr"

text \<open>
  A callback is an opaque callable: a name, and what a call of it does with the arguments
  it is given, which is to return (\<open>None\<close>) or to raise. \<open>ErrorCall\<close> holds the arguments of
  an \<open>ERROR\<close> handler, \<open>ExceptionCall\<close> those of a \<open>NETWORK_EXCEPTION\<close> handler. Every
  call is recorded in the trace.
\<close>

datatype call =
    ErrorCall response string kwargs
  | ExceptionCall py_exn string kwargs

datatype callback = Callback nat "call \<Rightarrow> py_exn option"

fun call_handler :: "callback \<Rightarrow> call \<Rightarrow> py_exn option" where
  "call_handler (Callback n behaviour) args = behaviour args"

definition returning :: "nat \<Rightarrow> callback" where
  "returning n = Callback n (\<lambda>args. None)"

definition raising :: "nat \<Rightarrow> py_exn \<Rightarrow> callback" where
  "raising n e = Callback n (\<lambda>args. Some e)"

datatype effect =
    Requested string kwargs
  | ErrorHandlerCalled callback response string kwargs
  | ExceptionHandlerCalled callback py_exn string kwargs
  | ThreadStarted pyval

fun is_request :: "effect \<Rightarrow> bool" where
  "is_request (Requested m a) = True"
| "is_request e = False"

fun is_handler_call :: "effect \<Rightarrow> bool" where
  "is_handler_call (ErrorHandlerCalled h r m a) = True"
| "is_handler_call (ExceptionHandlerCalled h x m a) = True"
| "is_handler_call e = False"

text \<open>What the handler call recorded in an effect did: \<open>Some e\<close> when it raised \<open>e\<close>.\<close>

fun handler_outcome :: "effect \<Rightarrow> py_exn option" where
  "handler_outcome (ErrorHandlerCalled h r m a) = call_handler h (ErrorCall r m a)"
| "handler_outcome (ExceptionHandlerCalled h x m a) = call_handler h (ExceptionCall x m a)"
| "handler_outcome e = None"

subsection \<open>Chatroom\<close>

record chatroom =
  room_uid :: pyval
  url :: string
  room_name :: pyval
  interval :: int
  user_id :: pyval
  session :: session
  active_channel :: "channel option"
  channels :: "channel list"
  endpoints :: endpoint_container
  listeners :: "(event \<times> callback) list"
  is_looping :: bool
  trace :: "effect list"

definition Chatroom_init :: "string \<Rightarrow> pyval \<Rightarrow> pyval \<Rightarrow> session \<Rightarrow> chatroom" where
  "Chatroom_init u i n s =
     \<lparr>room_uid = i, url = u, room_name = n, interval = 1, user_id = PNone, session = s,
      active_channel = None, channels = [], endpoints = EndpointContainer_init u i,
      listeners = [], is_looping = False, trace = []\<rparr>"

definition emit :: "effect \<Rightarrow> chatroom \<Rightarrow> chatroom" where
  "emit e c = c\<lparr>trace := trace c @ [e]\<rparr>"

definition prior_requests :: "chatroom \<Rightarrow> nat" where
  "prior_requests c = length (filter is_request (trace c))"

text \<open>The effects a call added: the trace of the state after it, without that before it.\<close>

definition new_effects :: "chatroom \<Rightarrow> chatroom \<Rightarrow> effect list" where
  "new_effects c c' = drop (length (trace c)) (trace c')"

text \<open>The \<^verbatim>\<open>except Exception\<close> branch of \<^verbatim>\<open>_request\<close>. The handler is called unguarded: what
  it raises leaves \<^verbatim>\<open>_request\<close>.\<close>

definition on_exception ::
  "chatroom \<Rightarrow> py_exn \<Rightarrow> string \<Rightarrow> kwargs \<Rightarrow> (py_exn + pyval) \<times> chatroom" where
  "on_exception c exception method_name req_args =
     (case map_of (listeners c) NETWORK_EXCEPTION of
        Some exception_handler \<Rightarrow>
          (let c1 = emit (ExceptionHandlerCalled exception_handler exception method_name
                            req_args) c in
           case call_handler exception_handler (ExceptionCall exception method_name req_args) of
             Some raised \<Rightarrow> (Inl raised, c1)
           | None \<Rightarrow> (Inr PNone, c1))
      | None \<Rightarrow> (Inl exception, c))"

text \<open>
  \<^verbatim>\<open>_request\<close>. What it returns is a Python value, \<open>PNone\<close> for \<^verbatim>\<open>None\<close>: a body that is the
  JSON \<^verbatim>\<open>null\<close> and the \<^verbatim>\<open>None\<close> returned after a handler was called are the same value to
  the callers, as in the source. The \<open>ERROR\<close> handler is called unguarded too.
\<close>

definition Chatroom_request ::
  "chatroom \<Rightarrow> string \<Rightarrow> kwargs \<Rightarrow> (py_exn + pyval) \<times> chatroom" where
  "Chatroom_request c method_name req_args =
     (case session c method_name of
        AttrMissing \<Rightarrow> (Inl (AttributeError method_name), c)
      | AttrNone \<Rightarrow>
          (Inl (ValueError (''Session does not have a method for '' @ [CHR 0x22] @ method_name
                            @ [CHR 0x22] @ ''.'')), c)
      | AttrOther \<Rightarrow> on_exception c (TypeError ''object is not callable'') method_name req_args
      | AttrMethod method \<Rightarrow>
          (let c1 = emit (Requested method_name req_args) c in
           case method (prior_requests c) req_args of
             Inl exception \<Rightarrow> on_exception c1 exception method_name req_args
           | Inr response \<Rightarrow>
               if status_code response = 200 then (json response, c1)
               else (case map_of (listeners c) ERROR of
                       Some error_handler \<Rightarrow>
                         (let c2 = emit (ErrorHandlerCalled error_handler response method_name
                                           req_args) c1 in
                          case call_handler error_handler
                                 (ErrorCall response method_name req_args) of
                            Some raised \<Rightarrow> (Inl raised, c2)
                          | None \<Rightarrow> (Inr PNone, c2))
                     | None \<Rightarrow>
                         (Inl (RuntimeError (py_upper method_name) req_args
                                 (status_code response) (resp_text response)), c1))))"

text \<open>
  \<^verbatim>\<open>_run\<close> starts a thread on \<^verbatim>\<open>_loop\<close> and returns. The loop takes the empty list of
  messages in every round, so it notifies nobody and never writes to the chatroom: of
  \<^verbatim>\<open>_run\<close> only the start of the thread (named after \<^verbatim>\<open>self.uid\<close>) is kept.
\<close>

definition Chatroom_run :: "chatroom \<Rightarrow> chatroom" where
  "Chatroom_run c = emit (ThreadStarted (room_uid c)) c"

text \<open>The \<^verbatim>\<open>for data in channels\<close> loop of \<^verbatim>\<open>_update_channels\<close>.\<close>

fun update_loop :: "chatroom \<Rightarrow> pyval list \<Rightarrow> (py_exn + unit) \<times> chatroom" where
  "update_loop c [] = (Inr (), c)"
| "update_loop c (data # rest) =
     (case Channel_from_dict data of
        Inl e \<Rightarrow> (Inl e, c)
      | Inr channel \<Rightarrow>
          update_loop
            (if \<not> channel_in channel (channels c)
             then c\<lparr>channels := channels c @ [channel]\<rparr> else c)
            rest)"

text \<open>\<^verbatim>\<open>_update_channels\<close> from the loop on, with \<^verbatim>\<open>channels\<close> known not to be \<^verbatim>\<open>None\<close>.\<close>

definition ingest :: "chatroom \<Rightarrow> pyval \<Rightarrow> (py_exn + unit) \<times> chatroom" where
  "ingest c chans =
     (case py_iter chans of
        Inl e \<Rightarrow> (Inl e, c)
      | Inr ds \<Rightarrow>
          (case update_loop c ds of
             (Inl e, c1) \<Rightarrow> (Inl e, c1)
           | (Inr u, c1) \<Rightarrow>
               (Inr (),
                if active_channel c1 = None \<and> length (channels c1) > 0
                then c1\<lparr>active_channel := Some (channels c1 ! 0)\<rparr> else c1)))"

text \<open>
  \<^verbatim>\<open>_update_channels\<close>. The \<^verbatim>\<open>assert\<close> is checked, as it is unless Python runs with \<^verbatim>\<open>-O\<close>. The
  argument is the list of channels or \<^verbatim>\<open>None\<close>, the default.
\<close>

definition Chatroom_update_channels :: "chatroom \<Rightarrow> pyval \<Rightarrow> (py_exn + unit) \<times> chatroom" where
  "Chatroom_update_channels c chans =
     (if \<not> truthy (user_id c)
      then (Inl (AssertionError ''Please log in before getting channels!''), c)
      else if chans = PNone then
        (case EndpointContainer_getattr (endpoints c) ''channels'' of
           Inl e \<Rightarrow> (Inl e, c)
         | Inr u \<Rightarrow>
             (case Chatroom_request c ''get''
                     [(''url'', PStr u), (''headers'', PDict [(''userID'', user_id c)])] of
                (Inl e, c1) \<Rightarrow> (Inl e, c1)
              | (Inr fetched, c1) \<Rightarrow>
                  if fetched = PNone then (Inr (), c1) else ingest c1 fetched))
      else ingest c chans)"

definition Chatroom_subscribe :: "chatroom \<Rightarrow> event \<Rightarrow> callback \<Rightarrow> chatroom" where
  "Chatroom_subscribe c ev cb =
     (let c1 = c\<lparr>listeners := AList.update ev cb (listeners c)\<rparr> in
      if \<not> is_looping c1 \<and> ev \<notin> set [ERROR, NETWORK_EXCEPTION] then Chatroom_run c1 else c1)"

text \<open>\<^verbatim>\<open>create\<close> has no \<^verbatim>\<open>return\<close> with a value: what it gives back is \<^verbatim>\<open>None\<close> on every path.\<close>

definition Chatroom_create :: "chatroom \<Rightarrow> string \<Rightarrow> string \<Rightarrow> (py_exn + pyval) \<times> chatroom" where
  "Chatroom_create c username password =
     (let data = PDict [(''chatroom_name'', room_name c), (''username'', PStr username),
                        (''password'', PStr password)] in
      case EndpointContainer_getattr (endpoints c) ''chatroom'' of
        Inl e \<Rightarrow> (Inl e, c)
      | Inr u \<Rightarrow>
     (case Chatroom_request c ''post''
             [(''headers'', PDict [(''Content-Type'', PStr ''application/json'')]),
              (''url'', PStr u), (''json'', data)] of
        (Inl e, c1) \<Rightarrow> (Inl e, c1)
      | (Inr response, c1) \<Rightarrow>
          if response = PNone then (Inr PNone, c1)
          else
     (case getitem response ''chatroom_name'' of
        Inl e \<Rightarrow> (Inl e, c1)
      | Inr n \<Rightarrow>
     (let c2 = c1\<lparr>room_name := n\<rparr> in
      case getitem response ''chatroomID'' of
        Inl e \<Rightarrow> (Inl e, c2)
      | Inr i \<Rightarrow>
     (let c3 = c2\<lparr>room_uid := i\<rparr> in
      case getitem response ''userID'' of
        Inl e \<Rightarrow> (Inl e, c3)
      | Inr usr \<Rightarrow>
     (let c4 = c3\<lparr>user_id := usr\<rparr> in
      case EndpointContainer_set (endpoints c4) ''uid'' (room_uid c4) of
        Inl e \<Rightarrow> (Inl e, c4)
      | Inr ep \<Rightarrow>
     (let c5 = c4\<lparr>endpoints := ep\<rparr> in
      case getitem response ''channels'' of
        Inl e \<Rightarrow> (Inl e, c5)
      | Inr chans \<Rightarrow>
     (case Chatroom_update_channels c5 chans of
        (Inl e, c6) \<Rightarrow> (Inl e, c6)
      | (Inr u, c6) \<Rightarrow> (Inr PNone, c6)))))))))"

definition Chatroom_create_channel ::
  "chatroom \<Rightarrow> string \<Rightarrow> (py_exn + channel option) \<times> chatroom" where
  "Chatroom_create_channel c nm =
     (let data = PDict [(''userID'', user_id c), (''channel_name'', PStr nm)] in
      case EndpointContainer_getattr (endpoints c) ''channels'' of
        Inl e \<Rightarrow> (Inl e, c)
      | Inr u \<Rightarrow>
     (case Chatroom_request c ''post'' [(''url'', PStr u), (''json'', data)] of
        (Inl e, c1) \<Rightarrow> (Inl e, c1)
      | (Inr response, c1) \<Rightarrow>
          if response = PNone then (Inr None, c1)
          else
     (case Channel_from_dict response of
        Inl e \<Rightarrow> (Inl e, c1)
      | Inr channel \<Rightarrow>
     (case Chatroom_update_channels c1 (PList [PChannel channel]) of
        (Inl e, c2) \<Rightarrow> (Inl e, c2)
      | (Inr u, c2) \<Rightarrow> (Inr (Some channel), c2)))))"

definition Chatroom_login :: "chatroom \<Rightarrow> string \<Rightarrow> string \<Rightarrow> (py_exn + pyval) \<times> chatroom" where
  "Chatroom_login c uid' password =
     (let data = PDict [(''userID'', PStr uid'), (''password'', PStr password)] in
      case EndpointContainer_getattr (endpoints c) ''login'' of
        Inl e \<Rightarrow> (Inl e, c)
      | Inr u \<Rightarrow>
     (case Chatroom_request c ''post'' [(''url'', PStr u), (''json'', data)] of
        (Inl e, c1) \<Rightarrow> (Inl e, c1)
      | (Inr response, c1) \<Rightarrow>
     (let c2 = c1\<lparr>user_id := PStr uid'\<rparr> in
      case Chatroom_update_channels c2 PNone of
        (Inl e, c3) \<Rightarrow> (Inl e, c3)
      | (Inr u, c3) \<Rightarrow> (Inr response, c3))))"

definition opt_int :: "int option \<Rightarrow> pyval" where
  "opt_int v = (case v of None \<Rightarrow> PNone | Some i \<Rightarrow> PInt i)"

definition opt_str :: "string option \<Rightarrow> pyval" where
  "opt_str v = (case v of None \<Rightarrow> PNone | Some s \<Rightarrow> PStr s)"

definition no_active_channel :: py_exn where
  "no_active_channel =
     ValueError (''Please use either the Chatroom.set_channel() function''
                 @ '' or provide `channel` as a non-null value!'')"

definition Chatroom_get_messages ::
  "chatroom \<Rightarrow> channel option \<Rightarrow> int option \<Rightarrow> int option \<Rightarrow> (py_exn + pyval) \<times> chatroom" where
  "Chatroom_get_messages c channel count time =
     (case channel of
        Some ch \<Rightarrow>
          (let c1 = c\<lparr>active_channel := Some ch\<rparr>;
               headers = PDict [(''channelID'', uid ch), (''count'', opt_int count),
                                (''time'', opt_int time)] in
           case EndpointContainer_getattr (endpoints c1) ''messages'' of
             Inl e \<Rightarrow> (Inl e, c1)
           | Inr u \<Rightarrow> Chatroom_request c1 ''get'' [(''url'', PStr u), (''headers'', headers)])
      | None \<Rightarrow>
          if active_channel c = None then (Inl no_active_channel, c)
          else (Inl (ValueError ''No channel was provided.''), c))"

text \<open>\<^verbatim>\<open>content: Union[str, bytes]\<close>.\<close>

datatype content = Text string | Binary string

fun content_val :: "content \<Rightarrow> pyval" where
  "content_val (Text s) = PStr s"
| "content_val (Binary b) = PBytes b"

fun is_bytes :: "content \<Rightarrow> bool" where
  "is_bytes (Text s) = False"
| "is_bytes (Binary b) = True"

definition Chatroom_send ::
  "chatroom \<Rightarrow> content \<Rightarrow> channel option \<Rightarrow> string option \<Rightarrow> (py_exn + pyval) \<times> chatroom" where
  "Chatroom_send c content channel reply_id =
     (case (case channel of
              Some ch \<Rightarrow> Inr (c\<lparr>active_channel := Some ch\<rparr>)
            | None \<Rightarrow> if active_channel c = None then Inl no_active_channel else Inr c) of
        Inl e \<Rightarrow> (Inl e, c)
      | Inr c1 \<Rightarrow>
     (case EndpointContainer_getattr (endpoints c1)
             (if is_bytes content then ''files'' else ''messages'') of
        Inl e \<Rightarrow> (Inl e, c1)
      | Inr endpoint \<Rightarrow>
     (case active_channel c1 of
        None \<Rightarrow> (Inl (AttributeError ''uid''), c1)
      | Some ac \<Rightarrow>
     (let msg = PDict [(''userID'', user_id c1), (''channelID'', uid ac),
                       (''replyID'', opt_str reply_id), (''data'', content_val content)] in
      case py_format endpoint [(''chatroom_id'', room_uid c1)] of
        Inl e \<Rightarrow> (Inl e, c1)
      | Inr path \<Rightarrow>
          Chatroom_request c1 ''post'' [(''url'', PStr (url c1 @ path)), (''json'', msg)]))))"

subsection \<open>Teacup\<close>

record teacup =
  chatrooms :: "chatroom list"
  global_listeners :: "(event \<times> callback) list"

text \<open>
  \<^verbatim>\<open>create_chatroom\<close> builds its chatroom on a session of its own, \<^verbatim>\<open>requests.Session()\<close>,
  here the argument \<open>new_session\<close>. Next to the value returned comes the local \<^verbatim>\<open>chat\<close> as
  the call leaves it, which carries the trace.
\<close>

definition Teacup_create_chatroom ::
  "teacup \<Rightarrow> session \<Rightarrow> string \<Rightarrow> string \<Rightarrow> string \<Rightarrow> string
     \<Rightarrow> (py_exn + chatroom option) \<times> chatroom" where
  "Teacup_create_chatroom t new_session u nm username password =
     (let chat = Chatroom_init u PNone (PStr nm) new_session;
          chat = fold (\<lambda>l ch. Chatroom_subscribe ch (fst l) (snd l)) (global_listeners t) chat in
      case Chatroom_create chat username password of
        (Inl e, chat) \<Rightarrow> (Inl e, chat)
      | (Inr response, chat) \<Rightarrow>
          if response = PNone then (Inr None, chat) else (Inr (Some chat), chat))"

subsection \<open>Sequences of calls\<close>

datatype op =
    Create string string
  | CreateChannel string
  | Login string string
  | GetMessages "channel option" "int option" "int option"
  | Send content "channel option" "string option"
  | UpdateChannels pyval
  | Subscribe event callback

text \<open>The chatroom after one call, whether the call returned or raised.\<close>

fun apply_op :: "chatroom \<Rightarrow> op \<Rightarrow> chatroom" where
  "apply_op c (Create username password) = snd (Chatroom_create c username password)"
| "apply_op c (CreateChannel nm) = snd (Chatroom_create_channel c nm)"
| "apply_op c (Login uid' password) = snd (Chatroom_login c uid' password)"
| "apply_op c (GetMessages channel count time) = snd (Chatroom_get_messages c channel count time)"
| "apply_op c (Send content channel reply_id) = snd (Chatroom_send c content channel reply_id)"
| "apply_op c (UpdateChannels chans) = snd (Chatroom_update_channels c chans)"
| "apply_op c (Subscribe ev cb) = Chatroom_subscribe c ev cb"

fun run :: "chatroom \<Rightarrow> op list \<Rightarrow> chatroom" where
  "run c [] = c"
| "run c (x # xs) = run (apply_op c x) xs"

subsection \<open>Properties of the state\<close>

text \<open>No two entries of a channel list are equal as \<^verbatim>\<open>==\<close> on \<open>Channel\<close> objects sees them.\<close>

definition no_equal_channels :: "channel list \<Rightarrow> bool" where
  "no_equal_channels chs = distinct (map norm_channel chs)"

text \<open>The active channel, when there is one, is \<^verbatim>\<open>in self.channels\<close>.\<close>

definition active_ok :: "chatroom \<Rightarrow> bool" where
  "active_ok c = (case active_channel c of None \<Rightarrow> True | Some a \<Rightarrow> channel_in a (channels c))"

text \<open>The endpoint container still resolves against the chatroom's own \<^verbatim>\<open>url\<close>.\<close>

definition url_bound :: "chatroom \<Rightarrow> bool" where
  "url_bound c = (priv_url (endpoints c) = PStr (url c))"

text \<open>
  What \<^verbatim>\<open>_request\<close>, \<^verbatim>\<open>_update_channels\<close>, \<^verbatim>\<open>create\<close>, \<^verbatim>\<open>create_channel\<close> and \<^verbatim>\<open>login\<close> keep
  between the chatroom \<open>c\<close> they are given and the chatroom \<open>c'\<close> they leave: the URL, the
  session and the listeners stay, the channel list only gets new entries at its end, and
  the active channel is either left alone or set, from \<^verbatim>\<open>None\<close>, to an entry of the list.
\<close>

definition grows :: "chatroom \<Rightarrow> chatroom \<Rightarrow> bool" where
  "grows c c' =
     (url c' = url c \<and> session c' = session c \<and> listeners c' = listeners c \<and>
      is_looping c' = is_looping c \<and>
      priv_url (endpoints c') = priv_url (endpoints c) \<and>
      (\<exists>new. channels c' = channels c @ new) \<and>
      (no_equal_channels (channels c) \<longrightarrow> no_equal_channels (channels c')) \<and>
      (active_channel c' = active_channel c \<or>
       (active_channel c = None \<and> (\<exists>a. active_channel c' = Some a \<and> a \<in> set (channels c')))))"

text \<open>The channel a call names itself, and the sequences of calls in which every channel
  named is, at the moment of the call, in the chatroom's list.\<close>

fun explicit_channel :: "op \<Rightarrow> channel option" where
  "explicit_channel (GetMessages channel count time) = channel"
| "explicit_channel (Send content channel reply_id) = channel"
| "explicit_channel x = None"

fun admissible :: "chatroom \<Rightarrow> op list \<Rightarrow> bool" where
  "admissible c [] = True"
| "admissible c (x # xs) =
     ((case explicit_channel x of None \<Rightarrow> True | Some ch \<Rightarrow> channel_in ch (channels c))
      \<and> admissible (apply_op c x) xs)"

definition brace_free :: "string \<Rightarrow> bool" where
  "brace_free s = (CHR ''{'' \<notin> set s \<and> CHR ''}'' \<notin> set s)"

subsection \<open>A mock session\<close>

text \<open>
  A session whose \<^verbatim>\<open>get\<close> and \<^verbatim>\<open>post\<close> answer every request with the same status and
  body and which has no other attribute, and a chatroom freshly constructed on it.
\<close>

definition mock_response :: "int \<Rightarrow> pyval \<Rightarrow> response" where
  "mock_response st body = \<lparr>status_code = st, json = Inr body, resp_text = ''body''\<rparr>"

definition mock_session :: "int \<Rightarrow> pyval \<Rightarrow> session" where
  "mock_session st body =
     (\<lambda>m. if m = ''get'' \<or> m = ''post''
           then AttrMethod (\<lambda>n a. Inr (mock_response st body)) else AttrMissing)"

definition fresh :: "int \<Rightarrow> pyval \<Rightarrow> chatroom" where
  "fresh st body = Chatroom_init ''http://h'' PNone (PStr ''x'') (mock_session st body)"

text \<open>A channel as the server describes it, the body that answers a chatroom creation, and
  the channel object \<open>Channel.from_dict\<close> makes of \<open>channel_dict ''a'' ''general''\<close>.\<close>

definition channel_dict :: "string \<Rightarrow> string \<Rightarrow> pyval" where
  "channel_dict i n = PDict [(''channelID'', PStr i), (''channel_name'', PStr n),
                             (''public'', PBool True), (''permissions'', PDict [])]"

definition created_body :: "pyval list \<Rightarrow> pyval" where
  "created_body chans = PDict [(''chatroom_name'', PStr ''x''), (''chatroomID'', PStr ''c1''),
                               (''userID'', PStr ''u1''), (''channels'', PList chans)]"

definition general :: channel where
  "general = Channel (PStr ''a'') (PStr ''general'') (PBool True) (PDict [])"

text \<open>The requests of the scenarios below, and the chatroom that \<^verbatim>\<open>create("alice", "secret")\<close>
  leaves when the mock answers with one channel.\<close>

definition create_request :: effect where
  "create_request =
     Requested ''post''
       [(''headers'', PDict [(''Content-Type'', PStr ''application/json'')]),
        (''url'', PStr ''http://h/api/v0/chatroom''),
        (''json'', PDict [(''chatroom_name'', PStr ''x''), (''username'', PStr ''alice''),
                          (''password'', PStr ''secret'')])]"

definition created_room :: chatroom where
  "created_room =
     (fresh 200 (created_body [channel_dict ''a'' ''general'']))
       \<lparr>room_uid := PStr ''c1'', room_name := PStr ''x'', user_id := PStr ''u1'',
        active_channel := Some general, channels := [general],
        endpoints := \<lparr>priv_url = PStr ''http://h'', priv_uid = PStr ''c1''\<rparr>,
        trace := [create_request]\<rparr>"

definition login_request :: effect where
  "login_request =
     Requested ''post''
       [(''url'', PStr ''http://h/api/v0/login/None''),
        (''json'', PDict [(''userID'', PStr ''u1''), (''password'', PStr ''pw'')])]"

definition channels_request :: effect where
  "channels_request =
     Requested ''get''
       [(''url'', PStr ''http://h/api/v0/channels/None''),
        (''headers'', PDict [(''userID'', PStr ''u1'')])]"

definition send_request :: effect where
  "send_request =
     Requested ''post''
       [(''url'', PStr ''http://hhttp://h/api/v0/messages/c1''),
        (''json'', PDict [(''userID'', PStr ''u1''), (''channelID'', PStr ''a''),
                          (''replyID'', PNone), (''data'', PStr ''hi'')])]"

text \<open>A channel as the server describes it with the permissions given, and two
  permission dicts that Python finds equal: the keys come in another order, and the
  values are bools in one and the numbers they equal in the other.\<close>

definition listed :: "string \<Rightarrow> pyval \<Rightarrow> pyval" where
  "listed i perms = PDict [(''channelID'', PStr i), (''channel_name'', PStr ''general''),
                           (''public'', PBool True), (''permissions'', perms)]"

definition read_write :: pyval where
  "read_write = PDict [(''read'', PBool True), (''write'', PBool False)]"

definition write_read :: pyval where
  "write_read = PDict [(''write'', PInt 0), (''read'', PInt 1)]"

text \<open>A chatroom whose base URL is itself a replacement field.\<close>

definition braces_room :: chatroom where
  "braces_room = Chatroom_init ''{chatroom_id}'' (PStr ''c1'') PNone (mock_session 200 PNone)"

section \<open>Properties\<close>

subsection \<open>Equality of dicts\<close>

lemma same_keys_same_items:
  "map fst xs = map fst ys \<Longrightarrow> distinct (map fst xs) \<Longrightarrow> map_of xs = map_of ys \<Longrightarrow> xs = ys"
proof (induction xs arbitrary: ys)
  case Nil
  then show ?case by simp
next
  case (Cons x xs)
  then obtain y ys' where ys: "ys = y # ys'" by (cases ys) auto
  have m: "map_of (x # xs) k' = map_of (y # ys') k'" for k'
    using Cons.prems(3) unfolding ys by (rule fun_cong)
  from ys Cons.prems(1,2) have k: "fst x = fst y" and ks: "map fst xs = map fst ys'"
    and d: "distinct (map fst xs)" and n: "fst x \<notin> set (map fst xs)" by simp_all
  have v: "snd x = snd y" using m [of "fst x"] k by simp
  have "map_of xs k' = map_of ys' k'" for k'
  proof (cases "k' = fst x")
    case True
    have "fst x \<notin> fst ` set xs" using n by simp
    moreover have "fst x \<notin> fst ` set ys'" using n ks by (metis set_map)
    ultimately have "map_of xs (fst x) = None" "map_of ys' (fst x) = None"
      by (simp_all add: map_of_eq_None_iff)
    then show ?thesis using True by simp
  next
    case False
    show ?thesis using m [of k'] False k by simp
  qed
  then have "map_of xs = map_of ys'" by (rule ext)
  then have "xs = ys'" using Cons.IH [OF ks d] by simp
  then show ?case using ys k v by (simp add: prod_eq_iff)
qed

lemma sorted_items_unique:
  assumes "distinct (map fst xs)" and "distinct (map fst ys)" and "map_of xs = map_of ys"
  shows "sort_key fst xs = sort_key fst ys"
proof -
  let ?a = "sort_key fst xs" and ?b = "sort_key fst ys"
  have s: "set xs = set ys" using assms by (simp add: map_of_inject_set)
  have da: "distinct (map fst ?a)" and db: "distinct (map fst ?b)"
    using assms(1,2) by (simp_all add: distinct_map)
  have "set (map fst ?a) = set (map fst ?b)" using s by simp
  moreover have "sorted (map fst ?a)" "sorted (map fst ?b)" by simp_all
  ultimately have k: "map fst ?a = map fst ?b"
    using da db by (intro sorted_distinct_set_unique)
  have "map_of ?a = map_of ?b"
    using s da db by (subst map_of_inject_set) simp_all
  with k da show ?thesis by (rule same_keys_same_items)
qed

lemma map_of_map_values:
  "map_of (map (map_prod id f) kvs) k = map_option f (map_of kvs k)"
  by (induction kvs) auto

lemma map_of_clearjunk_norm:
  "map_of (AList.clearjunk (map (map_prod id f) kvs)) = map_option f \<circ> map_of kvs"
  by (rule ext) (simp add: map_of_clearjunk map_of_map_values)

lemma map_of_sorted_items:
  "distinct (map fst xs) \<Longrightarrow> map_of (sort_key fst xs) = map_of xs"
  by (subst map_of_inject_set) (simp_all add: distinct_map)

text \<open>Two dicts have the same normal form exactly when they have the same keys and, under
  each key, values with the same normal form; the order of the items plays no part.\<close>

lemma norm_dict_iff:
  "norm (PDict kvs) = norm (PDict kvs')
     \<longleftrightarrow> map_option norm \<circ> map_of kvs = map_option norm \<circ> map_of kvs'"
proof
  let ?a = "AList.clearjunk (map (map_prod id norm) kvs)"
  let ?b = "AList.clearjunk (map (map_prod id norm) kvs')"
  have d: "distinct (map fst ?a)" "distinct (map fst ?b)" by (simp_all add: distinct_clearjunk)
  {
    assume "norm (PDict kvs) = norm (PDict kvs')"
    then have "map_of (sort_key fst ?a) = map_of (sort_key fst ?b)" by simp
    then have "map_of ?a = map_of ?b" using d by (simp add: map_of_sorted_items)
    then show "map_option norm \<circ> map_of kvs = map_option norm \<circ> map_of kvs'"
      by (simp add: map_of_clearjunk_norm)
  }
  {
    assume "map_option norm \<circ> map_of kvs = map_option norm \<circ> map_of kvs'"
    then have "map_of ?a = map_of ?b" by (simp add: map_of_clearjunk_norm)
    then show "norm (PDict kvs) = norm (PDict kvs')" using d by (simp add: sorted_items_unique)
  }
qed

lemma norm_dict_order:
  assumes "map_of kvs = map_of kvs'"
  shows "norm (PDict kvs) = norm (PDict kvs')"
proof -
  let ?a = "AList.clearjunk (map (map_prod id norm) kvs)"
  let ?b = "AList.clearjunk (map (map_prod id norm) kvs')"
  have "map_of ?a = map_of ?b" using assms by (simp add: map_of_clearjunk_norm)
  moreover have "distinct (map fst ?a)" "distinct (map fst ?b)"
    by (simp_all add: distinct_clearjunk)
  ultimately show ?thesis by (simp add: sorted_items_unique)
qed

subsection \<open>What the methods keep\<close>

lemma request_frame:
  "\<exists>es. snd (Chatroom_request c m a) = c\<lparr>trace := trace c @ es\<rparr>"
proof -
  have triv: "c = c\<lparr>trace := trace c @ []\<rparr>" by simp
  show ?thesis
    unfolding Chatroom_request_def on_exception_def emit_def Let_def
    by (auto split: attr.splits sum.splits option.splits intro: exI [of _ "[]"])
qed

lemma channel_in_iff: "channel_in ch chs \<longleftrightarrow> norm_channel ch \<in> norm_channel ` set chs"
  unfolding channel_in_def Channel_eq_def list_ex_iff image_iff by metis

lemma channel_in_member: "ch \<in> set chs \<Longrightarrow> channel_in ch chs"
  by (auto simp: channel_in_iff)

lemma channel_in_append: "channel_in ch chs \<Longrightarrow> channel_in ch (chs @ new)"
  by (auto simp: channel_in_iff)

lemma no_equal_snoc:
  "no_equal_channels chs \<Longrightarrow> \<not> channel_in ch chs \<Longrightarrow> no_equal_channels (chs @ [ch])"
  by (auto simp: no_equal_channels_def channel_in_iff)

lemma grows_refl: "grows c c"
  by (simp add: grows_def)

lemma grows_trans: "grows a b \<Longrightarrow> grows b c \<Longrightarrow> grows a c"
  unfolding grows_def by (elim conjE exE disjE) auto

lemma grows_active_ok: "grows c c' \<Longrightarrow> active_ok c \<Longrightarrow> active_ok c'"
  unfolding grows_def active_ok_def
  by (elim conjE exE disjE) (auto split: option.splits intro: channel_in_append channel_in_member)

lemma request_grows: "grows c (snd (Chatroom_request c m a))"
proof -
  obtain es where "snd (Chatroom_request c m a) = c\<lparr>trace := trace c @ es\<rparr>"
    using request_frame by blast
  then show ?thesis by (simp add: grows_def)
qed

lemma request_grows': "Chatroom_request c m a = (r, c') \<Longrightarrow> grows c c'"
  using request_grows [of c m a] by simp

lemma update_loop_grows: "grows c (snd (update_loop c ds))"
proof (induction ds arbitrary: c)
  case Nil
  show ?case by (simp add: grows_refl)
next
  case (Cons d ds)
  show ?case
  proof (cases "Channel_from_dict d")
    case (Inl e)
    then show ?thesis by (simp add: grows_refl)
  next
    case (Inr ch)
    let ?c1 = "if \<not> channel_in ch (channels c) then c\<lparr>channels := channels c @ [ch]\<rparr> else c"
    have "grows c ?c1" by (simp add: grows_def no_equal_snoc)
    moreover have "grows ?c1 (snd (update_loop ?c1 ds))" by (rule Cons.IH)
    ultimately have "grows c (snd (update_loop ?c1 ds))" by (rule grows_trans)
    then show ?thesis using Inr by simp
  qed
qed

lemma ingest_grows: "grows c (snd (ingest c v))"
proof (cases "py_iter v")
  case (Inl e)
  then show ?thesis by (simp add: ingest_def grows_refl)
next
  case (Inr ds)
  obtain r c1 where u: "update_loop c ds = (r, c1)" by (cases "update_loop c ds")
  then have g: "grows c c1" using update_loop_grows [of c ds] by simp
  show ?thesis
  proof (cases r)
    case (Inl e)
    then show ?thesis using Inr u g by (simp add: ingest_def)
  next
    case r: (Inr x)
    let ?c2 = "if active_channel c1 = None \<and> length (channels c1) > 0
               then c1\<lparr>active_channel := Some (channels c1 ! 0)\<rparr> else c1"
    have "grows c1 ?c2" by (auto simp: grows_def)
    with g have "grows c ?c2" by (rule grows_trans)
    then show ?thesis using Inr u r by (simp add: ingest_def)
  qed
qed

lemma ingest_grows': "ingest c v = (r, c') \<Longrightarrow> grows c c'"
  using ingest_grows [of c v] by simp

lemma update_channels_grows: "grows c (snd (Chatroom_update_channels c v))"
proof (cases "\<not> truthy (user_id c)")
  case True
  then show ?thesis by (simp add: Chatroom_update_channels_def grows_refl)
next
  case user: False
  show ?thesis
  proof (cases "v = PNone")
    case False
    then show ?thesis using user by (simp add: Chatroom_update_channels_def ingest_grows)
  next
    case True
    show ?thesis
    proof (cases "EndpointContainer_getattr (endpoints c) ''channels''")
      case (Inl e)
      then show ?thesis using user True by (simp add: Chatroom_update_channels_def grows_refl)
    next
      case (Inr u)
      obtain r c1 where q: "Chatroom_request c ''get''
          [(''url'', PStr u), (''headers'', PDict [(''userID'', user_id c)])] = (r, c1)"
        by (cases "Chatroom_request c ''get''
          [(''url'', PStr u), (''headers'', PDict [(''userID'', user_id c)])]")
      then have g: "grows c c1" by (rule request_grows')
      have "grows c (snd (ingest c1 fetched))" for fetched
        using g ingest_grows by (rule grows_trans)
      then show ?thesis using user True Inr q g
        by (simp add: Chatroom_update_channels_def split: sum.splits)
    qed
  qed
qed

lemma update_channels_grows': "Chatroom_update_channels c v = (r, c') \<Longrightarrow> grows c c'"
  using update_channels_grows [of c v] by simp

lemma set_uid: "EndpointContainer_set e ''uid'' v = Inr (e\<lparr>priv_uid := v\<rparr>)"
  by (simp add: EndpointContainer_set_def)

lemma grows_right_upd:
  "grows a (b\<lparr>room_name := n\<rparr>) = grows a b"
  "grows a (b\<lparr>room_uid := i\<rparr>) = grows a b"
  "grows a (b\<lparr>user_id := w\<rparr>) = grows a b"
  "grows a (b\<lparr>trace := t\<rparr>) = grows a b"
  "priv_url ep = priv_url (endpoints b) \<Longrightarrow> grows a (b\<lparr>endpoints := ep\<rparr>) = grows a b"
  by (simp_all add: grows_def)

lemma grows_left_upd:
  "grows (b\<lparr>room_name := n\<rparr>) c = grows b c"
  "grows (b\<lparr>room_uid := i\<rparr>) c = grows b c"
  "grows (b\<lparr>user_id := w\<rparr>) c = grows b c"
  "grows (b\<lparr>trace := t\<rparr>) c = grows b c"
  "priv_url ep = priv_url (endpoints b) \<Longrightarrow> grows (b\<lparr>endpoints := ep\<rparr>) c = grows b c"
  by (simp_all add: grows_def)

lemma create_grows: "grows c (snd (Chatroom_create c username password))"
  unfolding Chatroom_create_def Let_def
  by (auto simp: set_uid grows_refl grows_right_upd grows_left_upd
           split: sum.splits prod.splits
           dest!: request_grows' update_channels_grows' elim: grows_trans)

lemma create_channel_grows: "grows c (snd (Chatroom_create_channel c nm))"
  unfolding Chatroom_create_channel_def Let_def
  by (auto simp: grows_refl split: sum.splits prod.splits
           dest!: request_grows' update_channels_grows' elim: grows_trans)

lemma login_grows: "grows c (snd (Chatroom_login c uid' password))"
  unfolding Chatroom_login_def Let_def
  by (auto simp: grows_refl grows_right_upd grows_left_upd split: sum.splits prod.splits
           dest!: request_grows' update_channels_grows' elim: grows_trans)

lemma subscribe_channels:
  "channels (Chatroom_subscribe c ev cb) = channels c"
  "active_channel (Chatroom_subscribe c ev cb) = active_channel c"
  "url (Chatroom_subscribe c ev cb) = url c"
  "endpoints (Chatroom_subscribe c ev cb) = endpoints c"
  by (simp_all add: Chatroom_subscribe_def Chatroom_run_def emit_def Let_def)

lemma get_messages_state:
  "\<exists>es. snd (Chatroom_get_messages c channel count time)
     = c\<lparr>active_channel := (case channel of None \<Rightarrow> active_channel c | Some ch \<Rightarrow> Some ch),
          trace := trace c @ es\<rparr>"
proof (cases channel)
  case None
  have "c = c\<lparr>active_channel := active_channel c, trace := trace c @ []\<rparr>" by simp
  then show ?thesis using None unfolding Chatroom_get_messages_def by (auto intro: exI [of _ "[]"])
next
  case (Some ch)
  show ?thesis
  proof (cases "EndpointContainer_getattr (endpoints (c\<lparr>active_channel := Some ch\<rparr>)) ''messages''")
    case (Inl e)
    then show ?thesis using Some unfolding Chatroom_get_messages_def Let_def
      by (auto intro: exI [of _ "[]"])
  next
    case (Inr u)
    then show ?thesis using Some
      request_frame [of "c\<lparr>active_channel := Some ch\<rparr>" "''get''"]
      unfolding Chatroom_get_messages_def Let_def by simp
  qed
qed

lemma send_state:
  "\<exists>es. snd (Chatroom_send c content channel reply_id)
     = c\<lparr>active_channel := (case channel of None \<Rightarrow> active_channel c | Some ch \<Rightarrow> Some ch),
          trace := trace c @ es\<rparr>"
proof -
  have triv: "\<exists>es. x = x\<lparr>trace := trace x @ es\<rparr>" for x :: chatroom
    by (rule exI [of _ "[]"]) simp
  have req: "\<exists>es. snd (Chatroom_request x m a) = x\<lparr>trace := trace x @ es\<rparr>"
    for x m a by (rule request_frame)
  show ?thesis
  proof (cases channel)
    case None
    show ?thesis
    proof (cases "active_channel c")
      case n: None
      have "c = c\<lparr>active_channel := None, trace := trace c @ []\<rparr>" using n by simp
      then show ?thesis using None n unfolding Chatroom_send_def
        by (auto intro: exI [of _ "[]"])
    next
      case (Some a)
      have c: "c\<lparr>active_channel := Some a, trace := t\<rparr> = c\<lparr>trace := t\<rparr>" for t
        using Some by simp
      show ?thesis using None Some triv [of c] req [of c] unfolding Chatroom_send_def Let_def
        by (simp add: c split: sum.splits)
    qed
  next
    case (Some ch)
    show ?thesis using Some triv [of "c\<lparr>active_channel := Some ch\<rparr>"]
        req [of "c\<lparr>active_channel := Some ch\<rparr>"]
      unfolding Chatroom_send_def Let_def
      by (simp split: sum.splits)
  qed
qed

lemma grows_no_equal: "grows c c' \<Longrightarrow> no_equal_channels (channels c) \<Longrightarrow> no_equal_channels (channels c')"
  by (simp add: grows_def)

lemma grows_url_bound: "grows c c' \<Longrightarrow> url_bound c \<Longrightarrow> url_bound c'"
  by (simp add: grows_def url_bound_def)

lemma apply_op_cases:
  "grows c (apply_op c x) \<or>
   (\<exists>es. apply_op c x
      = c\<lparr>active_channel := (case explicit_channel x of None \<Rightarrow> active_channel c | Some ch \<Rightarrow> Some ch),
           trace := trace c @ es\<rparr>)
   \<or> (channels (apply_op c x) = channels c \<and> active_channel (apply_op c x) = active_channel c
       \<and> url (apply_op c x) = url c \<and> endpoints (apply_op c x) = endpoints c)"
proof (cases x)
  case (Create u p) then show ?thesis by (simp add: create_grows)
next
  case (CreateChannel n) then show ?thesis by (simp add: create_channel_grows)
next
  case (Login u p) then show ?thesis by (simp add: login_grows)
next
  case (GetMessages ch n t) then show ?thesis using get_messages_state [of c ch n t] by simp
next
  case (Send ct ch r) then show ?thesis using send_state [of c ct ch r] by simp
next
  case (UpdateChannels v) then show ?thesis by (simp add: update_channels_grows)
next
  case (Subscribe ev cb) then show ?thesis by (simp add: subscribe_channels)
qed

lemma apply_op_no_equal:
  "no_equal_channels (channels c) \<Longrightarrow> no_equal_channels (channels (apply_op c x))"
  using apply_op_cases [of c x] by (auto dest: grows_no_equal)

lemma apply_op_url_bound: "url_bound c \<Longrightarrow> url_bound (apply_op c x)"
  using apply_op_cases [of c x] by (auto dest: grows_url_bound simp: url_bound_def)

lemma apply_op_url: "url (apply_op c x) = url c"
  using apply_op_cases [of c x] by (auto simp: grows_def)

lemma apply_op_active_ok:
  "active_ok c \<Longrightarrow> (case explicit_channel x of None \<Rightarrow> True | Some ch \<Rightarrow> channel_in ch (channels c))
     \<Longrightarrow> active_ok (apply_op c x)"
  using apply_op_cases [of c x]
  by (auto dest: grows_active_ok simp: active_ok_def split: option.splits)

lemma run_no_equal:
  "no_equal_channels (channels c) \<Longrightarrow> no_equal_channels (channels (run c ops))"
  by (induction ops arbitrary: c) (simp_all add: apply_op_no_equal)

lemma run_url_bound: "url_bound c \<Longrightarrow> url_bound (run c ops)"
  by (induction ops arbitrary: c) (simp_all add: apply_op_url_bound)

lemma run_url: "url (run c ops) = url c"
  by (induction ops arbitrary: c) (simp_all add: apply_op_url)

lemma run_active_ok: "active_ok c \<Longrightarrow> admissible c ops \<Longrightarrow> active_ok (run c ops)"
  by (induction ops arbitrary: c) (simp_all add: apply_op_active_ok)

lemma update_loop_frame: "\<exists>new. snd (update_loop c ds) = c\<lparr>channels := channels c @ new\<rparr>"
proof (induction ds arbitrary: c)
  case Nil
  show ?case by (rule exI [of _ "[]"]) simp
next
  case (Cons d ds)
  show ?case
  proof (cases "Channel_from_dict d")
    case (Inl e)
    then show ?thesis by (auto intro: exI [of _ "[]"])
  next
    case (Inr ch)
    let ?c1 = "if \<not> channel_in ch (channels c) then c\<lparr>channels := channels c @ [ch]\<rparr> else c"
    obtain new where n: "snd (update_loop ?c1 ds) = ?c1\<lparr>channels := channels ?c1 @ new\<rparr>"
      using Cons.IH by blast
    show ?thesis
    proof (cases "channel_in ch (channels c)")
      case True
      then show ?thesis using Inr n by auto
    next
      case False
      then have "snd (update_loop c (d # ds)) = c\<lparr>channels := channels c @ ([ch] @ new)\<rparr>"
        using Inr n by simp
      then show ?thesis by blast
    qed
  qed
qed

lemma ingest_keeps:
  assumes "ingest c v = (r, c')"
  shows "room_name c' = room_name c \<and> room_uid c' = room_uid c \<and> user_id c' = user_id c
         \<and> endpoints c' = endpoints c \<and> trace c' = trace c"
proof (cases "py_iter v")
  case (Inl e)
  then show ?thesis using assms by (simp add: ingest_def)
next
  case (Inr ds)
  obtain new where "snd (update_loop c ds) = c\<lparr>channels := channels c @ new\<rparr>"
    using update_loop_frame by blast
  then show ?thesis using assms Inr
    by (cases "update_loop c ds") (auto simp: ingest_def split: sum.splits if_splits)
qed

lemma request_keeps:
  assumes "Chatroom_request c m a = (r, c')"
  shows "room_name c' = room_name c \<and> room_uid c' = room_uid c \<and> user_id c' = user_id c
         \<and> endpoints c' = endpoints c \<and> channels c' = channels c
         \<and> active_channel c' = active_channel c"
proof -
  obtain es where "snd (Chatroom_request c m a) = c\<lparr>trace := trace c @ es\<rparr>"
    using request_frame by blast
  then show ?thesis using assms by auto
qed

lemma update_channels_keeps:
  assumes "Chatroom_update_channels c v = (r, c')"
  shows "room_name c' = room_name c \<and> room_uid c' = room_uid c \<and> user_id c' = user_id c
         \<and> endpoints c' = endpoints c"
  using assms unfolding Chatroom_update_channels_def
  by (auto split: if_splits sum.splits prod.splits dest!: request_keeps ingest_keeps)

lemma create_returns_none: "Chatroom_create c username password = (Inr r, c') \<Longrightarrow> r = PNone"
  unfolding Chatroom_create_def Let_def
  by (auto split: sum.splits prod.splits if_splits)


subsection \<open>Ingesting a channel list\<close>







text \<open>
  \<^verbatim>\<open>create_channel\<close> hands \<^verbatim>\<open>_update_channels\<close> a list that holds the \<open>Channel\<close> object
  itself, and the loop there calls \<open>Channel.from_dict\<close> on each entry, which subscripts it:
  a \<open>TypeError\<close>. So \<^verbatim>\<open>create_channel\<close> returns \<^verbatim>\<open>None\<close> or raises, and never returns a channel.
\<close>

lemma update_channels_object:
  "fst (Chatroom_update_channels c (PList [PChannel ch])) \<noteq> Inr u"
  by (simp add: Chatroom_update_channels_def ingest_def Channel_from_dict_def)

lemma create_channel_never_returns:
  "fst (Chatroom_create_channel c nm) \<noteq> Inr (Some ch)"
proof -
  have "r \<noteq> Inr u" if "Chatroom_update_channels x (PList [PChannel y]) = (r, x')" for x y r u x'
    using update_channels_object [of x y u] that by simp
  then show ?thesis
    unfolding Chatroom_create_channel_def Let_def
    by (auto split: sum.splits prod.splits)
qed

subsection \<open>Resolving endpoints\<close>

lemma getattr_resolved:
  assumes "priv_url e = PStr u" and "py_str (priv_uid e) = Inr i"
  shows "EndpointContainer_getattr e ''base'' = Inr (u @ ''/api/v0'')"
    and "EndpointContainer_getattr e ''chatroom'' = Inr (u @ ''/api/v0/chatroom'')"
    and "EndpointContainer_getattr e ''login'' = Inr (u @ ''/api/v0/login/'' @ i)"
    and "EndpointContainer_getattr e ''files'' = Inr (u @ ''/api/v0/files/'' @ i)"
    and "EndpointContainer_getattr e ''messages'' = Inr (u @ ''/api/v0/messages/'' @ i)"
    and "EndpointContainer_getattr e ''channels'' = Inr (u @ ''/api/v0/channels/'' @ i)"
  using assms
  by (simp_all add: EndpointContainer_getattr_def EndpointContainer_base_def items_def
        py_format_def format_field_def)

lemma format_brace_free: "brace_free s \<Longrightarrow> py_format_from None s kw = Inr s"
  by (induction s) (auto simp: brace_free_def)

lemma brace_free_append: "brace_free (a @ b) = (brace_free a \<and> brace_free b)"
  by (auto simp: brace_free_def)


subsection \<open>Evaluating the scenarios\<close>

lemmas eval_defs =
  fresh_def Chatroom_init_def EndpointContainer_init_def mock_session_def mock_response_def
  Chatroom_subscribe_def Chatroom_run_def emit_def Chatroom_request_def on_exception_def
  prior_requests_def returning_def raising_def Let_def

lemmas eval_more = eval_defs Chatroom_create_def Teacup_create_chatroom_def created_body_def
  channel_dict_def EndpointContainer_getattr_def EndpointContainer_base_def items_def
  py_format_def format_field_def EndpointContainer_set_def Chatroom_update_channels_def
  ingest_def Channel_from_dict_def channel_in_def Channel_eq_def

lemma upper_get: "py_upper ''get'' = ''GET''"
  by code_simp

lemma create_one_channel:
  "Chatroom_create (fresh 200 (created_body [channel_dict ''a'' ''general''])) ''alice'' ''secret''
     = (Inr PNone, created_room)"
  by (simp add: eval_more created_room_def create_request_def general_def)


lemma send_after_create:
  "Chatroom_send created_room (Text ''hi'') None None
     = (Inr (created_body [channel_dict ''a'' ''general'']),
        created_room\<lparr>trace := [create_request, send_request]\<rparr>)"
  by (simp add: eval_more created_room_def create_request_def general_def Chatroom_send_def
        send_request_def opt_str_def)

lemma reordered_equal: "norm read_write = norm write_read"
  unfolding read_write_def write_read_def norm_dict_iff
  by (rule ext) simp

lemma reordered_in:
  "channel_in (Channel (PStr ''a'') (PStr ''general'') (PBool True) write_read)
     [Channel (PStr ''a'') (PStr ''general'') (PBool True) read_write]"
  by (simp add: channel_in_def Channel_eq_def reordered_equal)

lemma create_reordered_listed:
  "channels (snd (Chatroom_create
       (fresh 200 (created_body [listed ''a'' read_write, listed ''a'' write_read]))
       ''alice'' ''secret''))
   = [Channel (PStr ''a'') (PStr ''general'') (PBool True) read_write]"
  by (simp add: eval_defs Chatroom_create_def created_body_def listed_def
        EndpointContainer_getattr_def EndpointContainer_base_def items_def
        py_format_def format_field_def EndpointContainer_set_def Chatroom_update_channels_def
        ingest_def Channel_from_dict_def reordered_in)
     (simp add: channel_in_def)

section \<open>The claims\<close>

subsection \<open>The request executor\<close>

text \<open>
  C1, as the code has it. When the session's method returns a response, \<^verbatim>\<open>_request\<close> does
  one of three things. On status 200 it returns what \<^verbatim>\<open>response.json()\<close> gives (the parsed
  body, or the decoder's exception) and calls no handler. On another status with an
  \<open>ERROR\<close> handler registered it calls that handler with the response, the method name and
  the request arguments; it returns \<^verbatim>\<open>None\<close> when the handler returns, and what the handler
  raises leaves \<^verbatim>\<open>_request\<close>. On another status without an \<open>ERROR\<close> handler it raises the
  \<open>RuntimeError\<close> that carries the status code and the body text, and calls no handler.
  And on every call, also one whose method raises or does not exist: when a handler was
  called and the call raises, the exception is the one that handler raised.
\<close>

theorem C1_request_outcomes:
  "(session c method_name = AttrMethod method \<and> method (prior_requests c) req_args = Inr r \<longrightarrow>
      (status_code r = 200 \<longrightarrow>
         Chatroom_request c method_name req_args
           = (json r, emit (Requested method_name req_args) c)) \<and>
      (status_code r \<noteq> 200 \<longrightarrow>
         (\<forall>h. map_of (listeners c) ERROR = Some h \<longrightarrow>
            Chatroom_request c method_name req_args
              = ((case call_handler h (ErrorCall r method_name req_args) of
                    None \<Rightarrow> Inr PNone
                  | Some raised \<Rightarrow> Inl raised),
                 emit (ErrorHandlerCalled h r method_name req_args)
                   (emit (Requested method_name req_args) c))) \<and>
         (map_of (listeners c) ERROR = None \<longrightarrow>
            Chatroom_request c method_name req_args
              = (Inl (RuntimeError (py_upper method_name) req_args (status_code r) (resp_text r)),
                 emit (Requested method_name req_args) c))))
   \<and> (\<forall>e. fst (Chatroom_request c method_name req_args) = Inl e \<longrightarrow>
          list_ex is_handler_call
            (new_effects c (snd (Chatroom_request c method_name req_args))) \<longrightarrow>
          list_ex (\<lambda>x. handler_outcome x = Some e)
            (new_effects c (snd (Chatroom_request c method_name req_args))))"
  unfolding Chatroom_request_def on_exception_def emit_def Let_def new_effects_def
  by (auto split: attr.splits sum.splits option.splits)

text \<open>The outcomes on the mock: status 404 with an \<open>ERROR\<close> handler that returns, status 404
  without a handler, and status 200.\<close>

theorem C1_request_outcomes_witness:
  "session ((fresh 404 PNone)\<lparr>listeners := [(ERROR, returning 1)]\<rparr>) ''get''
     = AttrMethod (\<lambda>n a. Inr (mock_response 404 PNone))
   \<and> status_code (mock_response 404 PNone) = 404
   \<and> call_handler (returning 1) (ErrorCall (mock_response 404 PNone) ''get'' []) = None
   \<and> Chatroom_request ((fresh 404 PNone)\<lparr>listeners := [(ERROR, returning 1)]\<rparr>) ''get'' []
       = (Inr PNone,
          (fresh 404 PNone)\<lparr>listeners := [(ERROR, returning 1)],
             trace := [Requested ''get'' [],
                       ErrorHandlerCalled (returning 1) (mock_response 404 PNone) ''get'' []]\<rparr>)
   \<and> map_of (listeners (fresh 404 PNone)) ERROR = None
   \<and> Chatroom_request (fresh 404 PNone) ''get'' []
       = (Inl (RuntimeError ''GET'' [] 404 ''body''),
          (fresh 404 PNone)\<lparr>trace := [Requested ''get'' []]\<rparr>)
   \<and> status_code (mock_response 200 (PStr ''ok'')) = 200
   \<and> Chatroom_request (fresh 200 (PStr ''ok'')) ''get'' []
       = (Inr (PStr ''ok''), (fresh 200 (PStr ''ok''))\<lparr>trace := [Requested ''get'' []]\<rparr>)"
  using C1_request_outcomes [of "(fresh 404 PNone)\<lparr>listeners := [(ERROR, returning 1)]\<rparr>" "''get''"
      "\<lambda>n a. Inr (mock_response 404 PNone)" "[]" "mock_response 404 PNone"]
    C1_request_outcomes [of "fresh 404 PNone" "''get''"
      "\<lambda>n a. Inr (mock_response 404 PNone)" "[]" "mock_response 404 PNone"]
    C1_request_outcomes [of "fresh 200 (PStr ''ok'')" "''get''"
      "\<lambda>n a. Inr (mock_response 200 (PStr ''ok''))" "[]" "mock_response 200 (PStr ''ok'')"]
  by (simp add: fresh_def Chatroom_init_def mock_session_def mock_response_def emit_def upper_get
        returning_def)

text \<open>An \<open>ERROR\<close> handler that raises: the handler is called and the call raises, and
  \<^verbatim>\<open>None\<close> is not returned.\<close>

theorem C1_raising_handler_counterexample:
  "map_of (listeners ((fresh 404 PNone)\<lparr>listeners := [(ERROR, raising 1 (KeyError ''k''))]\<rparr>))
     ERROR = Some (raising 1 (KeyError ''k''))
   \<and> Chatroom_request
        ((fresh 404 PNone)\<lparr>listeners := [(ERROR, raising 1 (KeyError ''k''))]\<rparr>) ''get'' []
       = (Inl (KeyError ''k''),
          (fresh 404 PNone)\<lparr>listeners := [(ERROR, raising 1 (KeyError ''k''))],
             trace := [Requested ''get'' [],
                       ErrorHandlerCalled (raising 1 (KeyError ''k'')) (mock_response 404 PNone)
                         ''get'' []]\<rparr>)"
  by (simp add: eval_defs)

text \<open>
  C9. A method name the session does not have: \<^verbatim>\<open>getattr\<close> is called without a default,
  so it raises \<open>AttributeError\<close> before the test \<^verbatim>\<open>method is None\<close> and its \<open>ValueError\<close> are
  reached. Nothing is requested and no handler is called, although an \<open>ERROR\<close> and a
  \<open>NETWORK_EXCEPTION\<close> handler are both registered.
\<close>

theorem C9_unknown_method:
  "Chatroom_request
     (Chatroom_subscribe (Chatroom_subscribe (fresh 200 PNone) ERROR (returning 1))
        NETWORK_EXCEPTION (returning 2))
     ''frobnicate'' []
   = (Inl (AttributeError ''frobnicate''),
      Chatroom_subscribe (Chatroom_subscribe (fresh 200 PNone) ERROR (returning 1))
        NETWORK_EXCEPTION (returning 2))"
  by (simp add: eval_defs)

subsection \<open>Subscribing\<close>

text \<open>
  C2. \<^verbatim>\<open>subscribe\<close> never writes \<^verbatim>\<open>_is_looping\<close>: the flag after the call is the flag before
  it. On a fresh chatroom two subscriptions to \<open>MSG_NEW\<close> therefore start two threads and
  leave the flag false.
\<close>

theorem C2_loop_started_twice:
  "is_looping (Chatroom_subscribe c ev cb) = is_looping c
   \<and> is_looping (Chatroom_subscribe (Chatroom_subscribe (fresh 200 PNone) MSG_NEW (returning 1))
        MSG_NEW (returning 2)) = False
   \<and> trace (Chatroom_subscribe (Chatroom_subscribe (fresh 200 PNone) MSG_NEW (returning 1))
        MSG_NEW (returning 2)) = [ThreadStarted PNone, ThreadStarted PNone]"
  by (simp add: eval_defs)

subsection \<open>Resolving the channel\<close>

text \<open>
  C3, as the code has it. \<^verbatim>\<open>send\<close> with a channel given behaves as \<^verbatim>\<open>send\<close> without one on
  the chatroom whose active channel is that channel; \<^verbatim>\<open>send\<close> without a channel posts with
  the \<^verbatim>\<open>channelID\<close> of the active channel when there is one, and otherwise raises the
  \<open>ValueError\<close> for the missing channel and leaves the chatroom as it was, trace included,
  so nothing was requested. \<^verbatim>\<open>get_messages\<close> with a channel given makes it the active
  channel and requests with its \<^verbatim>\<open>channelID\<close>; without one it raises a \<open>ValueError\<close>
  whether or not an active channel is set, again leaving the chatroom as it was.
\<close>

theorem C3_channel_resolution:
  "Chatroom_send c content (Some ch) reply_id
     = Chatroom_send (c\<lparr>active_channel := Some ch\<rparr>) content None reply_id
   \<and> (\<forall>a endpoint path.
         active_channel c = Some a \<longrightarrow>
         EndpointContainer_getattr (endpoints c) (if is_bytes content then ''files'' else ''messages'')
           = Inr endpoint \<longrightarrow>
         py_format endpoint [(''chatroom_id'', room_uid c)] = Inr path \<longrightarrow>
         Chatroom_send c content None reply_id
           = Chatroom_request c ''post''
               [(''url'', PStr (url c @ path)),
                (''json'', PDict [(''userID'', user_id c), (''channelID'', uid a),
                                  (''replyID'', opt_str reply_id),
                                  (''data'', content_val content)])])
   \<and> (active_channel c = None \<longrightarrow>
         Chatroom_send c content None reply_id = (Inl no_active_channel, c))
   \<and> (\<forall>u. EndpointContainer_getattr (endpoints c) ''messages'' = Inr u \<longrightarrow>
         Chatroom_get_messages c (Some ch) count time
           = Chatroom_request (c\<lparr>active_channel := Some ch\<rparr>) ''get''
               [(''url'', PStr u),
                (''headers'', PDict [(''channelID'', uid ch), (''count'', opt_int count),
                                     (''time'', opt_int time)])])
   \<and> Chatroom_get_messages c None count time
       = (Inl (if active_channel c = None then no_active_channel
               else ValueError ''No channel was provided.''), c)"
  unfolding Chatroom_send_def Chatroom_get_messages_def Let_def
  by (auto split: sum.splits)

text \<open>The fallback of \<^verbatim>\<open>send\<close> on the chatroom created with one channel, \<^verbatim>\<open>send\<close> on a
  fresh chatroom, and \<^verbatim>\<open>get_messages\<close> with a channel given.\<close>

theorem C3_channel_resolution_witness:
  "active_channel created_room = Some general
   \<and> EndpointContainer_getattr (endpoints created_room) ''messages''
       = Inr ''http://h/api/v0/messages/c1''
   \<and> py_format ''http://h/api/v0/messages/c1'' [(''chatroom_id'', room_uid created_room)]
       = Inr ''http://h/api/v0/messages/c1''
   \<and> Chatroom_request created_room ''post''
               [(''url'', PStr (url created_room @ ''http://h/api/v0/messages/c1'')),
                (''json'', PDict [(''userID'', user_id created_room), (''channelID'', uid general),
                                  (''replyID'', opt_str None),
                                  (''data'', content_val (Text ''hi''))])]
       = (Inr (created_body [channel_dict ''a'' ''general'']),
          created_room\<lparr>trace := [create_request, send_request]\<rparr>)
   \<and> active_channel (fresh 200 PNone) = None
   \<and> Chatroom_send (fresh 200 PNone) (Text ''hi'') None None
       = (Inl no_active_channel, fresh 200 PNone)
   \<and> Chatroom_get_messages created_room (Some general) (Some 5) None
       = Chatroom_request created_room ''get''
           [(''url'', PStr ''http://h/api/v0/messages/c1''),
            (''headers'', PDict [(''channelID'', PStr ''a''), (''count'', PInt 5),
                                 (''time'', PNone)])]"
proof -
  have h1: "active_channel created_room = Some general" by (simp add: created_room_def)
  have h2: "EndpointContainer_getattr (endpoints created_room)
              (if is_bytes (Text ''hi'') then ''files'' else ''messages'')
            = Inr ''http://h/api/v0/messages/c1''"
    by (simp add: eval_more created_room_def)
  have h3: "py_format ''http://h/api/v0/messages/c1'' [(''chatroom_id'', room_uid created_room)]
            = Inr ''http://h/api/v0/messages/c1''"
    by (simp add: py_format_def)
  have h4: "active_channel (fresh 200 PNone) = None" by (simp add: fresh_def Chatroom_init_def)
  have h5: "EndpointContainer_getattr (endpoints created_room) ''messages''
            = Inr ''http://h/api/v0/messages/c1''"
    using h2 by simp
  have same: "created_room\<lparr>active_channel := Some general\<rparr> = created_room"
    by (simp add: created_room_def)
  note t = C3_channel_resolution [of created_room "Text ''hi''" general None "Some 5" None]
  have a: "Chatroom_send created_room (Text ''hi'') None None
           = Chatroom_request created_room ''post''
               [(''url'', PStr (url created_room @ ''http://h/api/v0/messages/c1'')),
                (''json'', PDict [(''userID'', user_id created_room), (''channelID'', uid general),
                                  (''replyID'', opt_str None),
                                  (''data'', content_val (Text ''hi''))])]"
    using t h1 h2 h3 by blast
  have b: "Chatroom_get_messages created_room (Some general) (Some 5) None
       = Chatroom_request created_room ''get''
           [(''url'', PStr ''http://h/api/v0/messages/c1''),
            (''headers'', PDict [(''channelID'', PStr ''a''), (''count'', PInt 5),
                                 (''time'', PNone)])]"
    using t h5 by (simp add: same opt_int_def) (simp add: general_def)
  have c: "Chatroom_send (fresh 200 PNone) (Text ''hi'') None None
       = (Inl no_active_channel, fresh 200 PNone)"
    using C3_channel_resolution [of "fresh 200 PNone" "Text ''hi''" general None None None] h4
    by blast
  show ?thesis using a b c h1 h3 h4 h5 send_after_create by simp
qed

text \<open>After \<^verbatim>\<open>create\<close> the active channel is set, and \<^verbatim>\<open>get_messages()\<close> still raises.\<close>

theorem C3_get_messages_counterexample:
  "active_channel (snd (Chatroom_create (fresh 200 (created_body [channel_dict ''a'' ''general'']))
                          ''alice'' ''secret'')) = Some general
   \<and> Chatroom_get_messages
         (snd (Chatroom_create (fresh 200 (created_body [channel_dict ''a'' ''general'']))
                 ''alice'' ''secret'')) None None None
       = (Inl (ValueError ''No channel was provided.''),
          snd (Chatroom_create (fresh 200 (created_body [channel_dict ''a'' ''general'']))
                 ''alice'' ''secret''))"
  by (simp add: create_one_channel Chatroom_get_messages_def) (simp add: created_room_def)

subsection \<open>Creating a chatroom\<close>



text \<open>
  C5. \<^verbatim>\<open>create_chatroom\<close> tests the value of \<^verbatim>\<open>chat.create(...)\<close>, which is \<^verbatim>\<open>None\<close> on every
  path, so it never returns the chatroom: on the mock that answers 200 with a well-formed
  body the chatroom is created (its uid is set) and the result is still \<^verbatim>\<open>None\<close>.
\<close>

theorem C5_create_chatroom_returns_none:
  "fst (Teacup_create_chatroom t new_session u nm username password) \<noteq> Inr (Some chat)
   \<and> fst (Teacup_create_chatroom \<lparr>chatrooms = [], global_listeners = [(ERROR, returning 1)]\<rparr>
            (mock_session 200 (created_body [])) ''http://h'' ''x'' ''alice'' ''secret'')
       = Inr None
   \<and> room_uid (snd (Teacup_create_chatroom \<lparr>chatrooms = [], global_listeners = [(ERROR, returning 1)]\<rparr>
            (mock_session 200 (created_body [])) ''http://h'' ''x'' ''alice'' ''secret''))
       = PStr ''c1''"
proof -
  have "fst (Teacup_create_chatroom t new_session u nm username password) \<noteq> Inr (Some chat)"
    unfolding Teacup_create_chatroom_def Let_def
    by (auto split: sum.splits prod.splits dest: create_returns_none)
  moreover have "fst (Teacup_create_chatroom \<lparr>chatrooms = [], global_listeners = [(ERROR, returning 1)]\<rparr>
            (mock_session 200 (created_body [])) ''http://h'' ''x'' ''alice'' ''secret'')
       = Inr None"
    by (simp add: eval_more)
  moreover have "room_uid (snd (Teacup_create_chatroom \<lparr>chatrooms = [], global_listeners = [(ERROR, returning 1)]\<rparr>
            (mock_session 200 (created_body [])) ''http://h'' ''x'' ''alice'' ''secret''))
       = PStr ''c1''"
    by (simp add: eval_more)
  ultimately show ?thesis by blast
qed

subsection \<open>The channel list\<close>

text \<open>
  C6, as the code has it. Entries are compared with the \<^verbatim>\<open>==\<close> of the dataclass, on all
  four fields, as Python compares them (a dict whatever the order of its keys, \<^verbatim>\<open>True\<close> equal
  to 1): through every sequence of calls a channel list without two equal entries stays
  so, and the list of a chatroom that starts freshly constructed never has two.
\<close>

theorem C6_no_equal_channels:
  "(no_equal_channels (channels c) \<longrightarrow> no_equal_channels (channels (run c ops)))
   \<and> no_equal_channels (channels (run (Chatroom_init u i n s) ops))"
proof -
  have "no_equal_channels (channels (Chatroom_init u i n s))"
    by (simp add: Chatroom_init_def no_equal_channels_def)
  then show ?thesis by (simp add: run_no_equal)
qed

text \<open>A channel listed twice in the answer, the second time with its permissions in another
  key order and written as numbers, is kept once.\<close>

theorem C6_no_equal_channels_witness:
  "no_equal_channels (channels
       (fresh 200 (created_body [listed ''a'' read_write, listed ''a'' write_read])))
   \<and> channels (run
       (fresh 200 (created_body [listed ''a'' read_write, listed ''a'' write_read]))
       [Create ''alice'' ''secret''])
     = [Channel (PStr ''a'') (PStr ''general'') (PBool True) read_write]
   \<and> no_equal_channels [Channel (PStr ''a'') (PStr ''general'') (PBool True) read_write]"
  using C6_no_equal_channels
    [of "fresh 200 (created_body [listed ''a'' read_write, listed ''a'' write_read])"
        "[Create ''alice'' ''secret'']"]
  by (simp add: create_reordered_listed) (simp add: fresh_def Chatroom_init_def no_equal_channels_def)

text \<open>Two channels with one uid and two names are both kept.\<close>

theorem C6_same_uid_counterexample:
  "channels (snd (Chatroom_create
       (fresh 200 (created_body [channel_dict ''a'' ''general'', channel_dict ''a'' ''renamed'']))
       ''alice'' ''secret''))
     = [Channel (PStr ''a'') (PStr ''general'') (PBool True) (PDict []),
        Channel (PStr ''a'') (PStr ''renamed'') (PBool True) (PDict [])]
   \<and> map uid (channels (snd (Chatroom_create
       (fresh 200 (created_body [channel_dict ''a'' ''general'', channel_dict ''a'' ''renamed'']))
       ''alice'' ''secret''))) = [PStr ''a'', PStr ''a'']"
  by (simp add: eval_more)

text \<open>
  C7, as the code has it. \<^verbatim>\<open>get_messages\<close> and \<^verbatim>\<open>send\<close> make the channel they are given
  the active one without looking at the list. Through every sequence of calls in which
  each channel given is in the list at that moment, the active channel, once set, is in
  the list.
\<close>

theorem C7_active_channel_listed:
  "(active_ok c \<longrightarrow> admissible c ops \<longrightarrow> active_ok (run c ops))
   \<and> (admissible (Chatroom_init u i n s) ops \<longrightarrow> active_ok (run (Chatroom_init u i n s) ops))"
proof -
  have "active_ok (Chatroom_init u i n s)"
    by (simp add: Chatroom_init_def active_ok_def)
  then show ?thesis by (simp add: run_active_ok)
qed

text \<open>Creating the chatroom and sending to the channel it got.\<close>

theorem C7_active_channel_listed_witness:
  "admissible (fresh 200 (created_body [channel_dict ''a'' ''general'']))
     [Create ''alice'' ''secret'', Send (Text ''hi'') (Some general) None]
   \<and> active_channel (run (fresh 200 (created_body [channel_dict ''a'' ''general'']))
        [Create ''alice'' ''secret'', Send (Text ''hi'') (Some general) None]) = Some general
   \<and> channels (run (fresh 200 (created_body [channel_dict ''a'' ''general'']))
        [Create ''alice'' ''secret'', Send (Text ''hi'') (Some general) None]) = [general]
   \<and> active_ok (run (fresh 200 (created_body [channel_dict ''a'' ''general'']))
        [Create ''alice'' ''secret'', Send (Text ''hi'') (Some general) None])"
proof -
  let ?c = "fresh 200 (created_body [channel_dict ''a'' ''general''])"
  let ?ops = "[Create ''alice'' ''secret'', Send (Text ''hi'') (Some general) None]"
  have a: "admissible ?c ?ops"
    by (simp add: create_one_channel) (simp add: created_room_def channel_in_def Channel_eq_def)
  have r: "run ?c ?ops = snd (Chatroom_send created_room (Text ''hi'') (Some general) None)"
    by (simp add: create_one_channel)
  obtain es where "snd (Chatroom_send created_room (Text ''hi'') (Some general) None)
       = created_room\<lparr>active_channel := Some general, trace := trace created_room @ es\<rparr>"
    using send_state [of created_room "Text ''hi''" "Some general" None] by auto
  then have f: "active_channel (run ?c ?ops) = Some general" "channels (run ?c ?ops) = [general]"
    using r by (simp_all add: created_room_def)
  have "?c = Chatroom_init ''http://h'' PNone (PStr ''x'')
               (mock_session 200 (created_body [channel_dict ''a'' ''general'']))"
    by (simp add: fresh_def)
  then have "active_ok (run ?c ?ops)"
    using C7_active_channel_listed [of ?c ?ops "''http://h''" PNone "PStr ''x''"
        "mock_session 200 (created_body [channel_dict ''a'' ''general''])"] a
    by simp
  then show ?thesis using a f by simp
qed

text \<open>Sending to a channel on a fresh chatroom: it is active and the list is empty.\<close>

theorem C7_explicit_channel_counterexample:
  "active_channel (snd (Chatroom_send (fresh 200 PNone) (Text ''hi'') (Some general) None))
     = Some general
   \<and> channels (snd (Chatroom_send (fresh 200 PNone) (Text ''hi'') (Some general) None)) = []
   \<and> \<not> active_ok (snd (Chatroom_send (fresh 200 PNone) (Text ''hi'') (Some general) None))"
proof -
  obtain es where "snd (Chatroom_send (fresh 200 PNone) (Text ''hi'') (Some general) None)
       = (fresh 200 PNone)\<lparr>active_channel := Some general, trace := trace (fresh 200 PNone) @ es\<rparr>"
    using send_state [of "fresh 200 PNone" "Text ''hi''" "Some general" None] by auto
  then show ?thesis
    by (simp add: fresh_def Chatroom_init_def active_ok_def channel_in_def)
qed

subsection \<open>Logging in\<close>

text \<open>
  C8. When the login request does not raise, whatever it returns (\<^verbatim>\<open>None\<close> included),
  \<^verbatim>\<open>login\<close> sets \<^verbatim>\<open>user_id\<close> to the id it was given and then runs \<^verbatim>\<open>_update_channels()\<close>:
  the chatroom it leaves is the one \<^verbatim>\<open>_update_channels\<close> leaves, with that user id, and it
  returns the response unless \<^verbatim>\<open>_update_channels\<close> raises.
\<close>

theorem C8_login_sets_user_id:
  assumes "EndpointContainer_getattr (endpoints c) ''login'' = Inr u"
    and "Chatroom_request c ''post''
           [(''url'', PStr u),
            (''json'', PDict [(''userID'', PStr uid'), (''password'', PStr password)])]
         = (Inr response, c1)"
  shows "user_id (snd (Chatroom_login c uid' password)) = PStr uid'
       \<and> snd (Chatroom_login c uid' password)
           = snd (Chatroom_update_channels (c1\<lparr>user_id := PStr uid'\<rparr>) PNone)
       \<and> fst (Chatroom_login c uid' password)
           = (case fst (Chatroom_update_channels (c1\<lparr>user_id := PStr uid'\<rparr>) PNone) of
                Inl e \<Rightarrow> Inl e | Inr x \<Rightarrow> Inr response)"
proof -
  obtain r c3 where upd: "Chatroom_update_channels (c1\<lparr>user_id := PStr uid'\<rparr>) PNone = (r, c3)"
    by (cases "Chatroom_update_channels (c1\<lparr>user_id := PStr uid'\<rparr>) PNone")
  from update_channels_keeps [OF upd] have "user_id c3 = PStr uid'" by simp
  then show ?thesis using assms upd
    unfolding Chatroom_login_def Let_def by (simp split: sum.splits)
qed

text \<open>A login the server refuses with 404 while an \<open>ERROR\<close> handler is registered: the
  user id is set and the channels are requested all the same.\<close>

theorem C8_login_sets_user_id_witness:
  "Chatroom_request ((fresh 404 PNone)\<lparr>listeners := [(ERROR, returning 1)]\<rparr>) ''post''
           [(''url'', PStr ''http://h/api/v0/login/None''),
            (''json'', PDict [(''userID'', PStr ''u1''), (''password'', PStr ''pw'')])]
     = (Inr PNone,
        (fresh 404 PNone)\<lparr>listeners := [(ERROR, returning 1)],
           trace := [login_request,
                     ErrorHandlerCalled (returning 1) (mock_response 404 PNone) ''post''
                       [(''url'', PStr ''http://h/api/v0/login/None''),
                        (''json'', PDict [(''userID'', PStr ''u1''), (''password'', PStr ''pw'')])]]\<rparr>)
   \<and> user_id (snd (Chatroom_login ((fresh 404 PNone)\<lparr>listeners := [(ERROR, returning 1)]\<rparr>)
                     ''u1'' ''pw'')) = PStr ''u1''
   \<and> filter is_request
         (trace (snd (Chatroom_login ((fresh 404 PNone)\<lparr>listeners := [(ERROR, returning 1)]\<rparr>)
                     ''u1'' ''pw'')))
       = [login_request, channels_request]"
proof -
  let ?c = "(fresh 404 PNone)\<lparr>listeners := [(ERROR, returning 1)]\<rparr>"
  have h1: "EndpointContainer_getattr (endpoints ?c) ''login'' = Inr ''http://h/api/v0/login/None''"
    by (simp add: eval_more)
  have h2: "Chatroom_request ?c ''post''
           [(''url'', PStr ''http://h/api/v0/login/None''),
            (''json'', PDict [(''userID'', PStr ''u1''), (''password'', PStr ''pw'')])]
     = (Inr PNone,
        ?c\<lparr>trace := [login_request,
                     ErrorHandlerCalled (returning 1) (mock_response 404 PNone) ''post''
                       [(''url'', PStr ''http://h/api/v0/login/None''),
                        (''json'', PDict [(''userID'', PStr ''u1''), (''password'', PStr ''pw'')])]]\<rparr>)"
    by (simp add: eval_more login_request_def)
  show ?thesis
    using C8_login_sets_user_id [OF h1 h2] h2
    by (simp add: eval_more login_request_def channels_request_def)
qed

subsection \<open>The URL of a sent message\<close>

text \<open>
  C10, as the code has it. On a chatroom reached from its construction by the calls
  above, whose base URL and whose identifier's text have no brace, a \<^verbatim>\<open>send\<close> that has a
  channel to use posts to the base URL followed by the resolved endpoint, which starts
  with the base URL again; this for text (\<^verbatim>\<open>messages\<close>) and for bytes (\<^verbatim>\<open>files\<close>).
\<close>

theorem C10_send_url_doubled:
  assumes "c = run (Chatroom_init u i0 n s) ops"
    and "brace_free u"
    and "py_str (priv_uid (endpoints c)) = Inr i"
    and "brace_free i"
    and "(case channel of Some x \<Rightarrow> Some x | None \<Rightarrow> active_channel c) = Some used"
  shows "url c = u
       \<and> EndpointContainer_getattr (endpoints c) (if is_bytes content then ''files'' else ''messages'')
           = Inr (u @ ''/api/v0/'' @ (if is_bytes content then ''files'' else ''messages'') @ ''/'' @ i)
       \<and> Chatroom_send c content channel reply_id
           = Chatroom_request (c\<lparr>active_channel := Some used\<rparr>) ''post''
               [(''url'', PStr (u @ u @ ''/api/v0/''
                                @ (if is_bytes content then ''files'' else ''messages'') @ ''/'' @ i)),
                (''json'', PDict [(''userID'', user_id c), (''channelID'', uid used),
                                  (''replyID'', opt_str reply_id),
                                  (''data'', content_val content)])]"
proof -
  let ?kind = "if is_bytes content then ''files'' else ''messages''"
  have "url_bound (Chatroom_init u i0 n s)"
    by (simp add: url_bound_def Chatroom_init_def EndpointContainer_init_def)
  then have "url_bound c" unfolding assms(1) by (rule run_url_bound)
  moreover have u: "url c = u" unfolding assms(1) by (simp add: run_url Chatroom_init_def)
  ultimately have p: "priv_url (endpoints c) = PStr u" by (simp add: url_bound_def)
  have e: "EndpointContainer_getattr (endpoints c) ?kind = Inr (u @ ''/api/v0/'' @ ?kind @ ''/'' @ i)"
    using getattr_resolved(4,5) [OF p assms(3)] by simp
  have "brace_free (u @ ''/api/v0/'' @ ?kind @ ''/'' @ i)"
    using assms(2,4) by (simp add: brace_free_append) (simp add: brace_free_def)
  then have f: "py_format (u @ ''/api/v0/'' @ ?kind @ ''/'' @ i) kw
                 = Inr (u @ ''/api/v0/'' @ ?kind @ ''/'' @ i)" for kw
    unfolding py_format_def by (rule format_brace_free)
  let ?c1 = "c\<lparr>active_channel := Some used\<rparr>"
  have e1: "EndpointContainer_getattr (endpoints ?c1) ?kind
              = Inr (u @ ''/api/v0/'' @ ?kind @ ''/'' @ i)"
    using e by simp
  have s: "Chatroom_send c content channel reply_id
           = Chatroom_send ?c1 content None reply_id"
  proof (cases channel)
    case None
    then have "?c1 = c" using assms(5) by simp
    then show ?thesis using None by simp
  next
    case (Some x)
    then have "x = used" using assms(5) by simp
    then show ?thesis using Some unfolding Chatroom_send_def by simp
  qed
  have "Chatroom_send ?c1 content None reply_id
          = Chatroom_request ?c1 ''post''
               [(''url'', PStr (u @ u @ ''/api/v0/'' @ ?kind @ ''/'' @ i)),
                (''json'', PDict [(''userID'', user_id c), (''channelID'', uid used),
                                  (''replyID'', opt_str reply_id),
                                  (''data'', content_val content)])]"
    unfolding Chatroom_send_def Let_def using e1 f u
    by (simp del: append_assoc)
  with s u e show ?thesis by (simp only:)
qed

text \<open>Sending text and bytes on the chatroom created with one channel.\<close>

theorem C10_send_url_doubled_witness:
  "brace_free ''http://h'' \<and> brace_free ''c1''
   \<and> run (fresh 200 (created_body [channel_dict ''a'' ''general''])) [Create ''alice'' ''secret'']
       = created_room
   \<and> py_str (priv_uid (endpoints created_room)) = Inr ''c1''
   \<and> active_channel created_room = Some general
   \<and> Chatroom_send created_room (Text ''hi'') None None
       = Chatroom_request created_room ''post''
               [(''url'', PStr ''http://hhttp://h/api/v0/messages/c1''),
                (''json'', PDict [(''userID'', PStr ''u1''), (''channelID'', PStr ''a''),
                                  (''replyID'', PNone), (''data'', PStr ''hi'')])]
   \<and> Chatroom_send created_room (Binary ''xy'') None (Some ''m1'')
       = Chatroom_request created_room ''post''
               [(''url'', PStr ''http://hhttp://h/api/v0/files/c1''),
                (''json'', PDict [(''userID'', PStr ''u1''), (''channelID'', PStr ''a''),
                                  (''replyID'', PStr ''m1''), (''data'', PBytes ''xy'')])]"
proof -
  have h1: "created_room = run (Chatroom_init ''http://h'' PNone (PStr ''x'')
                (mock_session 200 (created_body [channel_dict ''a'' ''general''])))
              [Create ''alice'' ''secret'']"
    using create_one_channel by (simp add: fresh_def)
  have h2: "brace_free ''http://h''" by (simp add: brace_free_def)
  have h3: "py_str (priv_uid (endpoints created_room)) = Inr ''c1''"
    by (simp add: created_room_def)
  have h4: "brace_free ''c1''" by (simp add: brace_free_def)
  have h5: "(case None of Some x \<Rightarrow> Some x | None \<Rightarrow> active_channel created_room) = Some general"
    by (simp add: created_room_def)
  have same: "created_room\<lparr>active_channel := Some general\<rparr> = created_room"
    by (simp add: created_room_def)
  have r: "run (fresh 200 (created_body [channel_dict ''a'' ''general''])) [Create ''alice'' ''secret'']
             = created_room"
    using create_one_channel by simp
  have a: "active_channel created_room = Some general" by (simp add: created_room_def)
  have v: "user_id created_room = PStr ''u1''" "uid general = PStr ''a''"
    by (simp_all add: created_room_def general_def)
  have t: "Chatroom_send created_room (Text ''hi'') None None
       = Chatroom_request created_room ''post''
               [(''url'', PStr ''http://hhttp://h/api/v0/messages/c1''),
                (''json'', PDict [(''userID'', PStr ''u1''), (''channelID'', PStr ''a''),
                                  (''replyID'', PNone), (''data'', PStr ''hi'')])]"
    using C10_send_url_doubled [OF h1 h2 h3 h4 h5, of "Text ''hi''" None]
    by (simp add: same opt_str_def v)
  have b: "Chatroom_send created_room (Binary ''xy'') None (Some ''m1'')
       = Chatroom_request created_room ''post''
               [(''url'', PStr ''http://hhttp://h/api/v0/files/c1''),
                (''json'', PDict [(''userID'', PStr ''u1''), (''channelID'', PStr ''a''),
                                  (''replyID'', PStr ''m1''), (''data'', PBytes ''xy'')])]"
    using C10_send_url_doubled [OF h1 h2 h3 h4 h5, of "Binary ''xy''" "Some ''m1''"]
    by (simp add: same opt_str_def v)
  show ?thesis using r h2 h3 h4 a t b by simp
qed

text \<open>With the base URL \<^verbatim>\<open>{chatroom_id}\<close> the second \<^verbatim>\<open>format\<close> replaces the field in the
  resolved endpoint: the URL requested is not the base URL followed by that endpoint.\<close>

theorem C10_braces_counterexample:
  "EndpointContainer_getattr (endpoints braces_room) ''messages''
     = Inr ''{chatroom_id}/api/v0/messages/c1''
   \<and> trace (snd (Chatroom_send braces_room (Text ''hi'') (Some general) None))
     = [Requested ''post''
          [(''url'', PStr ''{chatroom_id}c1/api/v0/messages/c1''),
           (''json'', PDict [(''userID'', PNone), (''channelID'', PStr ''a''),
                             (''replyID'', PNone), (''data'', PStr ''hi'')])]]
   \<and> ''{chatroom_id}c1/api/v0/messages/c1''
       \<noteq> url braces_room @ ''{chatroom_id}/api/v0/messages/c1''"
  by (simp add: eval_more braces_room_def Chatroom_send_def general_def opt_str_def)

end
